theory Spec2Isabelle
  imports Main "HOL-Library.AList" "HOL-Library.Char_ord" "HOL-Library.List_Lexorder"
begin

section \<open>Python strings\<close>

text \<open>
  A Python \<open>str\<close> is modelled as a \<open>string\<close> whose characters are the code points
  0 to 255 (Latin-1). The methods of \<open>str\<close> that the three tools call are written out
  below. On this range \<open>isdigit\<close> holds of a non-empty string made of the characters 0 to 9
  and of the superscripts U+00B2, U+00B3 and U+00B9, and \<open>strip\<close> removes the characters
  for which \<open>isspace\<close> holds: tab, line feed, vertical tab, form feed, carriage return,
  the four separators 0x1C to 0x1F, the space, U+0085 and U+00A0. \<open>lower\<close> and \<open>upper\<close>
  change the 26 ASCII letters only; the tools compare their results with ASCII constants
  only.
\<close>

definition ascii_uppercase :: string where
  "ascii_uppercase = ''ABCDEFGHIJKLMNOPQRSTUVWXYZ''"

definition ascii_lowercase :: string where
  "ascii_lowercase = ''abcdefghijklmnopqrstuvwxyz''"

definition digits :: string where
  "digits = ''0123456789''"

definition superscript_digits :: string where
  \<comment> \<open>superscript two, superscript three, superscript one\<close>
  "superscript_digits = [CHR 0xB2, CHR 0xB3, CHR 0xB9]"

definition whitespace :: string where
  "whitespace = [CHR 0x09, CHR 0x0A, CHR 0x0B, CHR 0x0C, CHR 0x0D,
                 CHR 0x1C, CHR 0x1D, CHR 0x1E, CHR 0x1F, CHR 0x20,
                 CHR 0x85, CHR 0xA0]"

definition isdigit_char :: "char \<Rightarrow> bool" where
  "isdigit_char c = (c \<in> set digits \<or> c \<in> set superscript_digits)"

definition isdigit :: "string \<Rightarrow> bool" where
  "isdigit s = (s \<noteq> [] \<and> list_all isdigit_char s)"

definition isspace_char :: "char \<Rightarrow> bool" where
  "isspace_char c = (c \<in> set whitespace)"

definition lower_char :: "char \<Rightarrow> char" where
  "lower_char c = (case map_of (zip ascii_uppercase ascii_lowercase) c of
                     Some d \<Rightarrow> d | None \<Rightarrow> c)"

definition upper_char :: "char \<Rightarrow> char" where
  "upper_char c = (case map_of (zip ascii_lowercase ascii_uppercase) c of
                     Some d \<Rightarrow> d | None \<Rightarrow> c)"

definition lower :: "string \<Rightarrow> string" where
  "lower s = map lower_char s"

definition upper :: "string \<Rightarrow> string" where
  "upper s = map upper_char s"

definition startswith :: "string \<Rightarrow> string \<Rightarrow> bool" where
  "startswith s p = (take (length p) s = p)"

definition endswith :: "string \<Rightarrow> string \<Rightarrow> bool" where
  "endswith s p = (length p \<le> length s \<and> drop (length s - length p) s = p)"

definition lstrip :: "string \<Rightarrow> string" where
  "lstrip s = dropWhile isspace_char s"

definition rstrip :: "string \<Rightarrow> string" where
  "rstrip s = rev (dropWhile isspace_char (rev s))"

definition strip :: "string \<Rightarrow> string" where
  "strip s = rstrip (lstrip s)"

text \<open>\<open>s.split(sep)\<close> for a separator of one character: every occurrence cuts.\<close>

fun split_on :: "char \<Rightarrow> string \<Rightarrow> string list" where
  "split_on sep [] = [[]]"
| "split_on sep (c # cs) =
     (if c = sep then [] # split_on sep cs
      else (case split_on sep cs of
              [] \<Rightarrow> [[c]]
            | p # ps \<Rightarrow> (c # p) # ps))"

text \<open>\<open>s.split(sep, 1)\<close>: at most one cut, at the first occurrence.\<close>

definition split_first :: "char \<Rightarrow> string \<Rightarrow> string list" where
  "split_first sep s =
     (if sep \<in> set s
      then [takeWhile (\<lambda>c. c \<noteq> sep) s, tl (dropWhile (\<lambda>c. c \<noteq> sep) s)]
      else [s])"

fun join :: "string \<Rightarrow> string list \<Rightarrow> string" where
  "join sep [] = []"
| "join sep [x] = x"
| "join sep (x # y # ys) = x @ sep @ join sep (y # ys)"

text \<open>\<open>s.rfind(c)\<close>: the highest index of \<open>c\<close>, or -1.\<close>

definition rfind :: "string \<Rightarrow> char \<Rightarrow> int" where
  "rfind s c =
     (if c \<in> set s
      then int (length s) - 1 - int (length (takeWhile (\<lambda>d. d \<noteq> c) (rev s)))
      else - 1)"

text \<open>\<open>s.ljust(n)\<close>, the padding of the format specification \<open>{code:15}\<close>.\<close>

definition ljust :: "string \<Rightarrow> nat \<Rightarrow> string" where
  "ljust s n = s @ replicate (n - length s) CHR '' ''"

section \<open>Exceptions\<close>

text \<open>
  The handlers of the tools tell \<open>ValueError\<close> (and its subclasses) from every other
  \<open>Exception\<close>; both carry the message that \<open>str(e)\<close> gives. A function that may raise
  returns \<open>exn + 'a\<close>, with \<open>Inl\<close> for the exception raised.
\<close>

datatype exn = ValueError string | Exception string

fun message :: "exn \<Rightarrow> string" where
  "message (ValueError m) = m"
| "message (Exception m) = m"

section \<open>ean13_generator.py: validation\<close>

definition validate_ean13_code :: "string \<Rightarrow> exn + string" where
  "validate_ean13_code code =
     (if \<not> isdigit code then Inl (ValueError ''EAN-13 code must contain only digits'')
      else if length code \<noteq> 12 then Inl (ValueError ''EAN-13 code must be exactly 12 digits'')
      else Inr code)"

definition quote :: "string \<Rightarrow> string" where
  \<comment> \<open>\<open>repr\<close> of a string that holds no quote, backslash or control character\<close>
  "quote s = [CHR 0x27] @ s @ [CHR 0x27]"

section \<open>pathlib\<close>

text \<open>
  \<open>Path\<close> as the tools use it, on a POSIX system: a path is parsed into its root and the
  list of its components; empty components and \<open>.\<close> are dropped, so that \<open>str\<close> gives the
  normalised text. \<open>suffix\<close> is the last component from its last dot on, unless that dot
  is the first or the last character; \<open>with_suffix\<close> raises \<open>ValueError\<close> for a path
  whose name is empty.
\<close>

record path =
  root :: string
  tail :: "string list"

definition splitroot :: "string \<Rightarrow> string \<times> string" where
  "splitroot p =
     (if take 1 p \<noteq> ''/'' then ([], p)
      else if take 1 (drop 1 p) \<noteq> ''/'' \<or> take 1 (drop 2 p) = ''/'' then (''/'', drop 1 p)
      else (''//'', drop 2 p))"

definition Path :: "string \<Rightarrow> path" where
  "Path s =
     (case splitroot s of
        (r, rel) \<Rightarrow>
          \<lparr>root = r, tail = filter (\<lambda>x. x \<noteq> [] \<and> x \<noteq> ''.'') (split_on CHR ''/'' rel)\<rparr>)"

definition path_str :: "path \<Rightarrow> string" where
  "path_str p = (if root p = [] \<and> tail p = [] then ''.'' else root p @ join ''/'' (tail p))"

definition path_name :: "path \<Rightarrow> string" where
  "path_name p = (if tail p = [] then [] else last (tail p))"

definition path_suffix :: "path \<Rightarrow> string" where
  "path_suffix p =
     (let name = path_name p; i = rfind name CHR ''.''
      in if 0 < i \<and> i < int (length name) - 1 then drop (nat i) name else [])"

definition with_suffix :: "path \<Rightarrow> string \<Rightarrow> exn + path" where
  "with_suffix p suffix =
     (if CHR ''/'' \<in> set suffix then Inl (ValueError (''Invalid suffix '' @ quote suffix))
      else if (suffix \<noteq> [] \<and> \<not> startswith suffix ''.'') \<or> suffix = ''.''
        then Inl (ValueError (''Invalid suffix '' @ quote suffix))
      else if path_name p = []
        then Inl (ValueError (''PosixPath('' @ quote (path_str p) @ '') has an empty name''))
      else
        (let name = path_name p; old_suffix = path_suffix p;
             name' = (if old_suffix = [] then name @ suffix
                      else take (length name - length old_suffix) name @ suffix)
         in Inr (p\<lparr>tail := butlast (tail p) @ [name']\<rparr>)))"

section \<open>argparse\<close>

text \<open>
  The argument grammar of each tool is the list of its \<open>add_argument\<close> calls (the help
  texts are left out). \<open>check_value\<close> is the gate of \<open>choices\<close>: a value outside the
  list makes \<open>parse_args\<close> print a message on standard error and exit with status 2,
  before the body of \<open>main\<close> runs.
\<close>

datatype pyval = PyStr string | PyInt int

datatype action = Store | StoreTrue | Version

record argument =
  name_or_flags :: "string list"
  nargs :: "string option"
  default :: "pyval option"
  choices :: "string list option"
  type_int :: bool
  action :: action

definition arg :: "string list \<Rightarrow> argument" where
  \<comment> \<open>an \<open>add_argument\<close> call with no keyword but \<open>help\<close>\<close>
  "arg names = \<lparr>name_or_flags = names, nargs = None, default = None, choices = None,
                type_int = False, action = Store\<rparr>"

definition check_value :: "argument \<Rightarrow> string \<Rightarrow> bool" where
  "check_value a v = (case choices a of None \<Rightarrow> True | Some cs \<Rightarrow> v \<in> set cs)"

definition is_positional :: "argument \<Rightarrow> bool" where
  \<comment> \<open>argparse: no name, or a single name that does not start with a prefix character\<close>
  "is_positional a =
     (case name_or_flags a of
        [] \<Rightarrow> True
      | [n] \<Rightarrow> \<not> startswith n ''-''
      | _ \<Rightarrow> False)"

definition positionals :: "argument list \<Rightarrow> string list" where
  "positionals parser = concat (map name_or_flags (filter is_positional parser))"

definition option_strings :: "argument list \<Rightarrow> string list" where
  "option_strings parser =
     concat (map name_or_flags (filter (\<lambda>a. \<not> is_positional a) parser))"

text \<open>What a run of a tool shows: the lines printed and the exit status.\<close>

record outcome =
  stdout :: "string list"
  stderr :: "string list"
  status :: nat

definition invalid_choice :: "argument \<Rightarrow> string \<Rightarrow> outcome" where
  \<comment> \<open>\<open>parser.error\<close> for a value outside \<open>choices\<close> (the usage text is left out)\<close>
  "invalid_choice a v =
     \<lparr>stdout = [],
      stderr = [''error: argument '' @ join ''/'' (name_or_flags a) @ '': invalid choice: ''
                @ quote v],
      status = 2\<rparr>"

section \<open>ean13_generator.py: generation and main\<close>

text \<open>
  The python-barcode library is a parameter: \<open>EAN13\<close> builds the barcode object (or
  raises) and \<open>save\<close> renders it with the writer it was built with, writes the file and
  returns the name of the file written (or raises).
\<close>

datatype writer = ImageWriter | SVGWriter

record 'e barcode_lib =
  EAN13 :: "string \<Rightarrow> writer \<Rightarrow> exn + 'e"
  save :: "'e \<Rightarrow> string \<Rightarrow> exn + string"

definition select_writer :: "string \<Rightarrow> writer \<times> string" where
  \<comment> \<open>lines 38 to 43 of \<open>generate_barcode\<close>: the writer and \<open>file_extension\<close>\<close>
  "select_writer format_type =
     (if lower format_type = ''png'' then (ImageWriter, ''.png'') else (SVGWriter, ''.svg''))"

definition ean13_output_path :: "string \<Rightarrow> exn + string" where
  \<comment> \<open>line 48: \<open>str(Path(output_path).with_suffix(''))\<close>\<close>
  "ean13_output_path output_path =
     (case with_suffix (Path output_path) [] of
        Inl e \<Rightarrow> Inl e
      | Inr p \<Rightarrow> Inr (path_str p))"

definition ean13_generate_barcode ::
  "'e barcode_lib \<Rightarrow> string \<Rightarrow> string \<Rightarrow> string \<Rightarrow> exn + string" where
  "ean13_generate_barcode lib code output_path format_type =
     (case (case validate_ean13_code code of
              Inl e \<Rightarrow> Inl e
            | Inr validated_code \<Rightarrow>
                (case select_writer format_type of
                   (writer, file_extension) \<Rightarrow>
                     (case EAN13 lib validated_code writer of
                        Inl e \<Rightarrow> Inl e
                      | Inr ean \<Rightarrow>
                          (case ean13_output_path output_path of
                             Inl e \<Rightarrow> Inl e
                           | Inr output_path' \<Rightarrow> save lib ean output_path')))) of
        Inl (ValueError m) \<Rightarrow> Inl (ValueError (''Invalid EAN-13 code: '' @ m))
      | Inl (Exception m) \<Rightarrow> Inl (Exception (''Failed to generate barcode: '' @ m))
      | Inr filename \<Rightarrow> Inr filename)"

definition ean13_parser :: "argument list" where
  "ean13_parser =
     [arg [''code''],
      (arg [''-o'', ''--output'']) \<lparr>default := Some (PyStr ''barcode'')\<rparr>,
      (arg [''-f'', ''--format'']) \<lparr>default := Some (PyStr ''svg''),
                                     choices := Some [''svg'', ''png'']\<rparr>,
      (arg [''--version'']) \<lparr>action := Version\<rparr>]"

text \<open>The namespace that \<open>parse_args\<close> returns: \<open>args.code\<close>, \<open>args.output\<close>, \<open>args.format\<close>.\<close>

record ean13_args =
  e_code :: string
  e_output :: string
  e_format :: string

definition ean13_main :: "'e barcode_lib \<Rightarrow> ean13_args \<Rightarrow> outcome" where
  "ean13_main lib args =
     (if \<not> check_value (ean13_parser ! 2) (e_format args)
      then invalid_choice (ean13_parser ! 2) (e_format args)
      else
        (case ean13_generate_barcode lib (e_code args) (e_output args) (e_format args) of
           Inr filename \<Rightarrow>
             \<lparr>stdout = [''Barcode generated successfully: '' @ filename], stderr = [],
              status = 0\<rparr>
         | Inl (ValueError m) \<Rightarrow> \<lparr>stdout = [], stderr = [''Error: '' @ m], status = 1\<rparr>
         | Inl (Exception m) \<Rightarrow> \<lparr>stdout = [], stderr = [''Error: '' @ m], status = 1\<rparr>))"


section \<open>barcode_generator.py\<close>

definition BARCODE_TYPES :: "(string \<times> string) list" where
  "BARCODE_TYPES =
     [(''code128'', ''Code 128 - High-density linear barcode for alphanumeric data''),
      (''datamatrix'', ''Data Matrix - 2D matrix code for small spaces and high data density''),
      (''pdf417'', ''PDF417 - 2D stacked barcode with high data capacity''),
      (''azteccode'', ''Aztec Code - 2D matrix code used in transportation''),
      (''code39'', ''Code 39 - Alphanumeric linear barcode''),
      (''code93'', ''Code 93 - Compact alphanumeric linear barcode''),
      (''interleaved2of5'', ''Interleaved 2 of 5 - Numeric-only linear barcode''),
      (''qrcode'', ''QR Code - 2D matrix code (use qr_generator.py for more options)''),
      (''upca'', ''UPC-A - 12-digit retail barcode''),
      (''ean13'', ''EAN-13 - 13-digit retail barcode (use ean13_generator.py for more options)''),
      (''maxicode'', ''MaxiCode - Fixed-size 2D code used by UPS''),
      (''codablock'', ''Codablock F - Stacked linear barcode'')]"

definition validate_barcode_type :: "string \<Rightarrow> exn + string" where
  "validate_barcode_type barcode_type =
     (if map_of BARCODE_TYPES barcode_type = None
      then (let available = join '', '' (sort (map fst BARCODE_TYPES))
            in Inl (ValueError (''Unsupported barcode type '' @ quote barcode_type
                                @ ''. Available types: '' @ available)))
      else Inr barcode_type)"

text \<open>
  The options dictionary: keys in insertion order, an assignment to a key that is there
  replaces its value in place. A value is a string or \<open>True\<close>.
\<close>

datatype optval = StrVal string | BoolVal bool

type_synonym options = "(string \<times> optval) list"

text \<open>
  The loop of \<open>parse_options\<close>. The unpacking \<open>key, value = ...\<close> raises \<open>ValueError\<close>
  unless the split gives exactly two pieces.
\<close>

fun parse_pairs :: "string list \<Rightarrow> options \<Rightarrow> exn + options" where
  "parse_pairs [] options = Inr options"
| "parse_pairs (pair # rest) options =
     (if CHR ''='' \<in> set pair
      then (case split_first CHR ''='' (strip pair) of
              [key, value] \<Rightarrow>
                parse_pairs rest (AList.update (strip key) (StrVal (strip value)) options)
            | _ \<Rightarrow> Inl (ValueError ''not enough values to unpack (expected 2, got 1)''))
      else parse_pairs rest (AList.update (strip pair) (BoolVal True) options))"

definition parse_options :: "string option \<Rightarrow> exn + options" where
  "parse_options options_str =
     (case options_str of
        None \<Rightarrow> Inr []
      | Some s \<Rightarrow>
          if s = [] then Inr []
          else (case parse_pairs (split_on CHR '','' s) [] of
                  Inl e \<Rightarrow> Inl (ValueError (''Invalid options format: '' @ message e))
                | Inr options \<Rightarrow> Inr options))"

text \<open>
  treepoem and Pillow are parameters: each call returns its result or raises.
\<close>

record 'i treepoem_lib =
  treepoem_generate_barcode :: "string \<Rightarrow> string \<Rightarrow> options \<Rightarrow> exn + 'i"
  ImageOps_expand :: "'i \<Rightarrow> nat \<Rightarrow> string \<Rightarrow> exn + 'i"
  image_convert :: "'i \<Rightarrow> string \<Rightarrow> exn + 'i"
  image_save :: "'i \<Rightarrow> string \<Rightarrow> exn + unit"

definition barcode_output_path :: "string \<Rightarrow> exn + path" where
  \<comment> \<open>lines 63 to 65 of \<open>generate_barcode\<close>\<close>
  "barcode_output_path output_path =
     (let p = Path output_path
      in if path_suffix p = [] then with_suffix p ''.png'' else Inr p)"

definition barcode_generate_barcode ::
  "'i treepoem_lib \<Rightarrow> string \<Rightarrow> string \<Rightarrow> string \<Rightarrow> options option \<Rightarrow> exn + string" where
  "barcode_generate_barcode lib data barcode_type output_path options =
     (case (case validate_barcode_type barcode_type of
              Inl e \<Rightarrow> Inl e
            | Inr validated_type \<Rightarrow>
                (case treepoem_generate_barcode lib validated_type data
                        (case options of None \<Rightarrow> [] | Some d \<Rightarrow> d) of
                   Inl e \<Rightarrow> Inl e
                 | Inr img \<Rightarrow>
                     (case ImageOps_expand lib img 10 ''white'' of
                        Inl e \<Rightarrow> Inl e
                      | Inr img' \<Rightarrow>
                          (case barcode_output_path output_path of
                             Inl e \<Rightarrow> Inl e
                           | Inr p \<Rightarrow>
                               (case (if lower (path_suffix p) = ''.png''
                                      then image_convert lib img' ''RGB'' else Inr img') of
                                  Inl e \<Rightarrow> Inl e
                                | Inr img'' \<Rightarrow>
                                    (case image_save lib img'' (path_str p) of
                                       Inl e \<Rightarrow> Inl e
                                     | Inr u \<Rightarrow> Inr (path_str p))))))) of
        Inl (ValueError m) \<Rightarrow> Inl (ValueError m)
      | Inl (Exception m) \<Rightarrow> Inl (Exception (''Failed to generate barcode: '' @ m))
      | Inr filename \<Rightarrow> Inr filename)"

definition list_barcode_types :: "string list" where
  \<comment> \<open>the lines that \<open>list_barcode_types\<close> prints\<close>
  "list_barcode_types =
     [''Available barcode types:'', replicate 50 CHR ''=''] @
     map (\<lambda>(code, description). ljust code 15 @ '' - '' @ description)
         (sort_key fst BARCODE_TYPES)"

definition barcode_parser :: "argument list" where
  "barcode_parser =
     [(arg [''data'']) \<lparr>nargs := Some ''?''\<rparr>,
      (arg [''type'']) \<lparr>nargs := Some ''?''\<rparr>,
      (arg [''-o'', ''--output'']) \<lparr>default := Some (PyStr ''barcode'')\<rparr>,
      arg [''--options''],
      (arg [''--list-types'']) \<lparr>action := StoreTrue\<rparr>,
      (arg [''--version'']) \<lparr>action := Version\<rparr>]"

text \<open>
  The namespace of \<open>parse_args\<close>: \<open>args.data\<close>, \<open>args.type\<close> and \<open>args.options\<close> are
  \<open>None\<close> when not given.
\<close>

record barcode_args =
  b_data :: "string option"
  b_type :: "string option"
  b_output :: string
  b_options :: "string option"
  b_list_types :: bool

definition falsy :: "string option \<Rightarrow> bool" where
  \<comment> \<open>\<open>not x\<close> for \<open>x\<close> a string or \<open>None\<close>\<close>
  "falsy x = (case x of None \<Rightarrow> True | Some s \<Rightarrow> s = [])"

definition required_error :: outcome where
  \<comment> \<open>\<open>parser.error\<close> of line 170 (the usage text is left out)\<close>
  "required_error =
     \<lparr>stdout = [],
      stderr = [''error: Both '' @ quote ''data'' @ '' and '' @ quote ''type''
                @ '' are required (unless using --list-types)''],
      status = 2\<rparr>"

definition barcode_main :: "'i treepoem_lib \<Rightarrow> barcode_args \<Rightarrow> outcome" where
  "barcode_main lib args =
     (if b_list_types args then \<lparr>stdout = list_barcode_types, stderr = [], status = 0\<rparr>
      else if falsy (b_data args) \<or> falsy (b_type args) then required_error
      else
        (case (b_data args, b_type args) of
           (Some data, Some barcode_type) \<Rightarrow>
             (case (case parse_options (b_options args) of
                      Inl e \<Rightarrow> Inl e
                    | Inr options \<Rightarrow>
                        barcode_generate_barcode lib data barcode_type (b_output args)
                          (Some options)) of
                Inr filename \<Rightarrow>
                  \<lparr>stdout = [''Barcode generated successfully: '' @ filename], stderr = [],
                   status = 0\<rparr>
              | Inl (ValueError m) \<Rightarrow> \<lparr>stdout = [], stderr = [''Error: '' @ m], status = 1\<rparr>
              | Inl (Exception m) \<Rightarrow> \<lparr>stdout = [], stderr = [''Error: '' @ m], status = 1\<rparr>)
         | _ \<Rightarrow> required_error))"

section \<open>qr_generator.py\<close>

datatype error_correction =
  ERROR_CORRECT_L | ERROR_CORRECT_M | ERROR_CORRECT_Q | ERROR_CORRECT_H

definition levels :: "(string \<times> error_correction) list" where
  "levels = [(''L'', ERROR_CORRECT_L), (''M'', ERROR_CORRECT_M),
             (''Q'', ERROR_CORRECT_Q), (''H'', ERROR_CORRECT_H)]"

definition get_error_correction_level :: "string \<Rightarrow> error_correction" where
  "get_error_correction_level level =
     (case map_of levels (upper level) of Some c \<Rightarrow> c | None \<Rightarrow> ERROR_CORRECT_M)"

text \<open>
  The qrcode library is a parameter. \<open>add_data\<close> and \<open>make\<close> (here \<open>qr_make\<close>) change the code object,
  so they return it.
\<close>

datatype image_factory = SvgPathImage

record ('q, 'i) qrcode_lib =
  QRCode :: "nat \<Rightarrow> error_correction \<Rightarrow> int \<Rightarrow> int \<Rightarrow> exn + 'q"
  add_data :: "'q \<Rightarrow> string \<Rightarrow> exn + 'q"
  qr_make :: "'q \<Rightarrow> bool \<Rightarrow> exn + 'q"
  make_image :: "'q \<Rightarrow> image_factory option \<Rightarrow> string \<Rightarrow> string \<Rightarrow> exn + 'i"
  img_save :: "'i \<Rightarrow> string \<Rightarrow> exn + unit"

definition qr_output_path :: "string \<Rightarrow> string \<Rightarrow> string" where
  \<comment> \<open>lines 61 to 63 of \<open>generate_qr_code\<close>\<close>
  "qr_output_path output_path file_extension =
     (let output_path' = path_str (Path output_path)
      in if \<not> endswith output_path' file_extension then output_path' @ file_extension
         else output_path')"

definition generate_qr_code ::
  "('q, 'i) qrcode_lib \<Rightarrow> string \<Rightarrow> string \<Rightarrow> string \<Rightarrow> int \<Rightarrow> int \<Rightarrow> string \<Rightarrow> string
     \<Rightarrow> string \<Rightarrow> exn + string" where
  "generate_qr_code lib data output_path format_type box_size border error_correction
       fill_color back_color =
     (case (case QRCode lib 1 (get_error_correction_level error_correction) box_size border of
              Inl e \<Rightarrow> Inl e
            | Inr qr \<Rightarrow>
                (case add_data lib qr data of
                   Inl e \<Rightarrow> Inl e
                 | Inr qr \<Rightarrow>
                     (case qr_make lib qr True of
                        Inl e \<Rightarrow> Inl e
                      | Inr qr \<Rightarrow>
                          (case (if lower format_type = ''svg''
                                 then (case make_image lib qr (Some SvgPathImage)
                                              fill_color back_color of
                                         Inl e \<Rightarrow> Inl e
                                       | Inr img \<Rightarrow> Inr (img, ''.svg''))
                                 else (case make_image lib qr None fill_color back_color of
                                         Inl e \<Rightarrow> Inl e
                                       | Inr img \<Rightarrow> Inr (img, ''.png''))) of
                             Inl e \<Rightarrow> Inl e
                           | Inr (img, file_extension) \<Rightarrow>
                               (let output_path' = qr_output_path output_path file_extension
                                in case img_save lib img output_path' of
                                     Inl e \<Rightarrow> Inl e
                                   | Inr u \<Rightarrow> Inr output_path'))))) of
        Inl e \<Rightarrow> Inl (Exception (''Failed to generate QR code: '' @ message e))
      | Inr filename \<Rightarrow> Inr filename)"

definition valid_colors :: "string set" where
  "valid_colors =
     {''black'', ''white'', ''red'', ''green'', ''blue'', ''yellow'',
      ''cyan'', ''magenta'', ''orange'', ''purple'', ''brown'', ''pink'', ''gray''}"

definition validate_colors :: "string \<Rightarrow> string \<Rightarrow> exn + unit" where
  "validate_colors fill_color back_color =
     (if startswith fill_color ''#'' \<or> lower fill_color \<in> valid_colors
      then (if startswith back_color ''#'' \<or> lower back_color \<in> valid_colors
            then Inr ()
            else Inl (ValueError (''Invalid background color: '' @ back_color)))
      else Inl (ValueError (''Invalid fill color: '' @ fill_color)))"

definition qr_parser :: "argument list" where
  "qr_parser =
     [arg [''data''],
      (arg [''-o'', ''--output'']) \<lparr>default := Some (PyStr ''qr_code'')\<rparr>,
      (arg [''-f'', ''--format'']) \<lparr>default := Some (PyStr ''png''),
                                     choices := Some [''png'', ''svg'']\<rparr>,
      (arg [''-e'', ''--error-correction'']) \<lparr>default := Some (PyStr ''M''),
                                               choices := Some [''L'', ''M'', ''Q'', ''H'']\<rparr>,
      (arg [''--box-size'']) \<lparr>default := Some (PyInt 10), type_int := True\<rparr>,
      (arg [''--border'']) \<lparr>default := Some (PyInt 4), type_int := True\<rparr>,
      (arg [''--fill-color'']) \<lparr>default := Some (PyStr ''black'')\<rparr>,
      (arg [''--back-color'']) \<lparr>default := Some (PyStr ''white'')\<rparr>,
      (arg [''--version'']) \<lparr>action := Version\<rparr>]"

text \<open>
  The namespace of \<open>parse_args\<close>; \<open>--box-size\<close> and \<open>--border\<close> have been converted by
  \<open>type=int\<close>.
\<close>

record qr_args =
  q_data :: string
  q_output :: string
  q_format :: string
  q_error_correction :: string
  q_box_size :: int
  q_border :: int
  q_fill_color :: string
  q_back_color :: string

definition qr_main :: "('q, 'i) qrcode_lib \<Rightarrow> qr_args \<Rightarrow> outcome" where
  "qr_main lib args =
     (if \<not> check_value (qr_parser ! 2) (q_format args)
      then invalid_choice (qr_parser ! 2) (q_format args)
      else if \<not> check_value (qr_parser ! 3) (q_error_correction args)
      then invalid_choice (qr_parser ! 3) (q_error_correction args)
      else
        (case (case validate_colors (q_fill_color args) (q_back_color args) of
                 Inl e \<Rightarrow> Inl e
               | Inr u \<Rightarrow>
                   generate_qr_code lib (q_data args) (q_output args) (q_format args)
                     (q_box_size args) (q_border args) (q_error_correction args)
                     (q_fill_color args) (q_back_color args)) of
           Inr filename \<Rightarrow>
             \<lparr>stdout = [''QR code generated successfully: '' @ filename], stderr = [],
              status = 0\<rparr>
         | Inl (ValueError m) \<Rightarrow> \<lparr>stdout = [], stderr = [''Error: '' @ m], status = 1\<rparr>
         | Inl (Exception m) \<Rightarrow> \<lparr>stdout = [], stderr = [''Error: '' @ m], status = 1\<rparr>))"


section \<open>Specification-level definitions and stand-in libraries\<close>

text \<open>
  An error report of \<open>main\<close>: nothing on standard output, the message on standard error,
  exit status 1. A success report: one line on standard output, nothing on standard
  error, and a normal return (status 0).
\<close>

definition reports_error :: "exn \<Rightarrow> outcome \<Rightarrow> bool" where
  "reports_error e r = (stdout r = [] \<and> stderr r = [''Error: '' @ message e] \<and> status r = 1)"

definition reports_success :: "string \<Rightarrow> outcome \<Rightarrow> bool" where
  "reports_success line r = (stdout r = [line] \<and> stderr r = [] \<and> status r = 0)"

text \<open>
  \<open>parse_options\<close> as the specification words it: every comma-separated piece gives one
  assignment to the dictionary, in order.
\<close>

definition option_of_piece :: "string \<Rightarrow> string \<times> optval" where
  "option_of_piece piece =
     (if CHR ''='' \<in> set piece
      then (strip (takeWhile (\<lambda>c. c \<noteq> CHR ''='') piece),
            StrVal (strip (tl (dropWhile (\<lambda>c. c \<noteq> CHR ''='') piece))))
      else (strip piece, BoolVal True))"

definition parse_options_spec :: "string option \<Rightarrow> options" where
  "parse_options_spec options_str =
     (case options_str of
        None \<Rightarrow> []
      | Some s \<Rightarrow>
          if s = [] then []
          else foldl (\<lambda>d piece. case option_of_piece piece of (k, v) \<Rightarrow> AList.update k v d) []
                 (split_on CHR '','' s))"

text \<open>
  Libraries to run the tools on concrete inputs: every call succeeds, except that the
  treepoem stand-in raises on empty data. The barcode object of the first is the pair of
  the code and the writer, and its \<open>save\<close> appends the extension of the writer.
\<close>

definition stub_barcode_lib :: "(string \<times> writer) barcode_lib" where
  "stub_barcode_lib =
     \<lparr>EAN13 = (\<lambda>code writer. Inr (code, writer)),
      save = (\<lambda>(code, writer) filename.
                Inr (filename @ (case writer of ImageWriter \<Rightarrow> ''.png'' | SVGWriter \<Rightarrow> ''.svg'')))\<rparr>"

definition stub_treepoem_lib :: "string treepoem_lib" where
  "stub_treepoem_lib =
     \<lparr>treepoem_generate_barcode = (\<lambda>barcode_type data options.
          if data = [] then Inl (Exception ''No data'') else Inr data),
      ImageOps_expand = (\<lambda>img border fill. Inr img),
      image_convert = (\<lambda>img mode. Inr img),
      image_save = (\<lambda>img filename. Inr ())\<rparr>"

definition stub_qrcode_lib :: "(string, string) qrcode_lib" where
  "stub_qrcode_lib =
     \<lparr>QRCode = (\<lambda>version level box_size border. Inr []),
      add_data = (\<lambda>qr data. Inr (qr @ data)),
      qr_make = (\<lambda>qr fit. Inr qr),
      make_image = (\<lambda>qr factory fill_color back_color. Inr qr),
      img_save = (\<lambda>img filename. Inr ())\<rparr>"

section \<open>Properties of validate_ean13_code\<close>

lemma validate_ean13_code_cases:
  "((\<exists>m. validate_ean13_code code = Inl (ValueError m)) \<longleftrightarrow>
      (\<not> isdigit code \<or> length code \<noteq> 12))
   \<and> (validate_ean13_code code = Inr code \<or> (\<exists>m. validate_ean13_code code = Inl (ValueError m)))"
  by (auto simp: validate_ean13_code_def)

text \<open>
  C1. The claim: \<open>validate_ean13_code\<close> raises \<open>ValueError\<close> if and only if the code is
  not composed solely of digits or its length is not exactly 12, and otherwise returns its
  input. The code breaks it: the string of twelve superscript twos (U+00B2) has length 12
  and holds none of the digits 0 to 9, yet \<open>str.isdigit\<close> accepts it and
  \<open>validate_ean13_code\<close> returns it as a valid 12-digit code.
\<close>

theorem validate_ean13_code_superscript:
  "validate_ean13_code
     [CHR 0xB2, CHR 0xB2, CHR 0xB2, CHR 0xB2, CHR 0xB2, CHR 0xB2,
      CHR 0xB2, CHR 0xB2, CHR 0xB2, CHR 0xB2, CHR 0xB2, CHR 0xB2]
     = Inr [CHR 0xB2, CHR 0xB2, CHR 0xB2, CHR 0xB2, CHR 0xB2, CHR 0xB2,
            CHR 0xB2, CHR 0xB2, CHR 0xB2, CHR 0xB2, CHR 0xB2, CHR 0xB2]
   \<and> length [CHR 0xB2, CHR 0xB2, CHR 0xB2, CHR 0xB2, CHR 0xB2, CHR 0xB2,
              CHR 0xB2, CHR 0xB2, CHR 0xB2, CHR 0xB2, CHR 0xB2, CHR 0xB2] = (12::nat)
   \<and> CHR 0xB2 \<notin> set ''0123456789''"
  by (simp add: validate_ean13_code_def isdigit_def isdigit_char_def digits_def
      superscript_digits_def)

section \<open>Properties of validate_barcode_type\<close>

lemma keys_BARCODE_TYPES:
  "map fst BARCODE_TYPES =
     [''code128'', ''datamatrix'', ''pdf417'', ''azteccode'', ''code39'', ''code93'',
      ''interleaved2of5'', ''qrcode'', ''upca'', ''ean13'', ''maxicode'', ''codablock'']"
  by (simp add: BARCODE_TYPES_def)

lemma map_of_None_keys:
  "(map_of BARCODE_TYPES t = None) = (t \<notin> set (map fst BARCODE_TYPES))"
  by (simp add: map_of_eq_None_iff)

lemma validate_barcode_type_cases:
  "validate_barcode_type t =
     (if t \<in> set (map fst BARCODE_TYPES) then Inr t
      else Inl (ValueError (''Unsupported barcode type '' @ quote t @ ''. Available types: ''
                            @ join '', '' (sort (map fst BARCODE_TYPES)))))"
  unfolding validate_barcode_type_def map_of_None_keys by (simp add: Let_def)

text \<open>
  C3. For every string \<open>barcode_type\<close>, \<open>validate_barcode_type\<close> returns its input
  unchanged if and only if it is one of the 12 keys of \<open>BARCODE_TYPES\<close>, and raises
  \<open>ValueError\<close> for every other string.
\<close>

theorem validate_barcode_type_iff:
  "(validate_barcode_type t = Inr t \<longleftrightarrow>
      t \<in> {''code128'', ''datamatrix'', ''pdf417'', ''azteccode'', ''code39'', ''code93'',
           ''interleaved2of5'', ''qrcode'', ''upca'', ''ean13'', ''maxicode'', ''codablock''})
   \<and> ((\<exists>m. validate_barcode_type t = Inl (ValueError m)) \<longleftrightarrow>
      t \<notin> {''code128'', ''datamatrix'', ''pdf417'', ''azteccode'', ''code39'', ''code93'',
           ''interleaved2of5'', ''qrcode'', ''upca'', ''ean13'', ''maxicode'', ''codablock''})
   \<and> set (map fst BARCODE_TYPES) =
         {''code128'', ''datamatrix'', ''pdf417'', ''azteccode'', ''code39'', ''code93'',
          ''interleaved2of5'', ''qrcode'', ''upca'', ''ean13'', ''maxicode'', ''codablock''}
   \<and> length BARCODE_TYPES = 12 \<and> distinct (map fst BARCODE_TYPES)"
proof -
  have k: "set (map fst BARCODE_TYPES) =
         {''code128'', ''datamatrix'', ''pdf417'', ''azteccode'', ''code39'', ''code93'',
          ''interleaved2of5'', ''qrcode'', ''upca'', ''ean13'', ''maxicode'', ''codablock''}"
    unfolding keys_BARCODE_TYPES by simp
  have d: "distinct (map fst BARCODE_TYPES)"
    unfolding keys_BARCODE_TYPES by simp
  have l: "length BARCODE_TYPES = 12"
    by (simp add: BARCODE_TYPES_def)
  show ?thesis
    unfolding validate_barcode_type_cases k [symmetric] using k d l by auto
qed

theorem validate_barcode_type_iff_witness:
  "validate_barcode_type ''ean13'' = Inr ''ean13''
   \<and> (\<exists>m. validate_barcode_type ''EAN13'' = Inl (ValueError m))
   \<and> (\<exists>m. validate_barcode_type [] = Inl (ValueError m))"
  using validate_barcode_type_iff [of "''ean13''"] validate_barcode_type_iff [of "''EAN13''"]
        validate_barcode_type_iff [of "[]"]
  by simp

section \<open>Properties of validate_colors\<close>

text \<open>
  C7. For every pair of strings, \<open>validate_colors\<close> raises \<open>ValueError\<close> if and only if
  at least one of the two colors neither starts with \<open>#\<close> nor, lowercased, belongs to the
  13-element set of color names; when both colors pass it returns normally.
\<close>

theorem validate_colors_iff:
  "((\<exists>m. validate_colors fill_color back_color = Inl (ValueError m)) \<longleftrightarrow>
      (\<not> (startswith fill_color ''#'' \<or>
           lower fill_color \<in> {''black'', ''white'', ''red'', ''green'', ''blue'', ''yellow'',
              ''cyan'', ''magenta'', ''orange'', ''purple'', ''brown'', ''pink'', ''gray''})
       \<or> \<not> (startswith back_color ''#'' \<or>
           lower back_color \<in> {''black'', ''white'', ''red'', ''green'', ''blue'', ''yellow'',
              ''cyan'', ''magenta'', ''orange'', ''purple'', ''brown'', ''pink'', ''gray''})))
   \<and> (validate_colors fill_color back_color = Inr () \<or>
        (\<exists>m. validate_colors fill_color back_color = Inl (ValueError m)))
   \<and> card valid_colors = 13"
proof -
  have c: "card valid_colors = 13"
    by (simp add: valid_colors_def)
  show ?thesis
    unfolding c by (simp add: validate_colors_def valid_colors_def)
qed

theorem validate_colors_iff_witness:
  "(\<exists>m. validate_colors ''reddish'' ''white'' = Inl (ValueError m))
   \<and> (\<exists>m. validate_colors ''red'' ''fff'' = Inl (ValueError m))
   \<and> validate_colors ''Red'' ''#fff'' = Inr ()"
  using validate_colors_iff [of "''reddish''" "''white''"]
        validate_colors_iff [of "''red''" "''fff''"]
        validate_colors_iff [of "''Red''" "''#fff''"]
  by (auto simp: startswith_def lower_def lower_char_def ascii_uppercase_def ascii_lowercase_def)

text \<open>
  C10. \<open>validate_colors\<close> accepts every string that begins with \<open>#\<close>, whatever follows:
  for any two colors both starting with \<open>#\<close> it never raises.
\<close>

theorem validate_colors_hash:
  "startswith fill_color ''#'' \<Longrightarrow> startswith back_color ''#'' \<Longrightarrow>
     validate_colors fill_color back_color = Inr ()"
  by (simp add: validate_colors_def)

theorem validate_colors_hash_witness:
  "startswith ''#zzz'' ''#'' \<and> startswith ''#'' ''#'' \<and> validate_colors ''#zzz'' ''#'' = Inr ()"
proof -
  have a: "startswith ''#zzz'' ''#''" by (simp add: startswith_def)
  have b: "startswith ''#'' ''#''" by (simp add: startswith_def)
  show ?thesis using a b validate_colors_hash [OF a b] by simp
qed

section \<open>The format of ean13_generator.py\<close>

lemma lower_svg: "lower ''svg'' \<noteq> ''png''"
  by (simp add: lower_def lower_char_def ascii_uppercase_def ascii_lowercase_def)

text \<open>
  C9. In \<open>generate_barcode\<close> of ean13_generator.py, every \<open>format_type\<close> whose lowercase
  form is not \<open>png\<close> selects the SVG writer and the \<open>.svg\<close> extension without an error:
  the run is the run for \<open>svg\<close>, and it returns the file name when the code is valid and
  the library calls succeed.
\<close>

theorem ean13_other_format_is_svg:
  "lower format_type \<noteq> ''png'' \<Longrightarrow>
     select_writer format_type = (SVGWriter, ''.svg'')
     \<and> ean13_generate_barcode lib code output_path format_type =
         ean13_generate_barcode lib code output_path ''svg''
     \<and> (\<forall>ean p filename.
           validate_ean13_code code = Inr code \<and> EAN13 lib code SVGWriter = Inr ean \<and>
           ean13_output_path output_path = Inr p \<and> save lib ean p = Inr filename
           \<longrightarrow> ean13_generate_barcode lib code output_path format_type = Inr filename)"
proof -
  assume h: "lower format_type \<noteq> ''png''"
  have a: "select_writer format_type = (SVGWriter, ''.svg'')"
    using h by (simp add: select_writer_def)
  have b: "select_writer ''svg'' = (SVGWriter, ''.svg'')"
    using lower_svg by (simp add: select_writer_def)
  have c: "ean13_generate_barcode lib code output_path format_type =
             ean13_generate_barcode lib code output_path ''svg''"
    unfolding ean13_generate_barcode_def a b by (rule refl)
  have d: "validate_ean13_code code = Inr code \<and> EAN13 lib code SVGWriter = Inr ean \<and>
           ean13_output_path output_path = Inr p \<and> save lib ean p = Inr filename
           \<longrightarrow> ean13_generate_barcode lib code output_path format_type = Inr filename"
    for ean p filename
    unfolding ean13_generate_barcode_def a by simp
  show ?thesis using a c d by blast
qed

theorem ean13_other_format_is_svg_witness:
  "lower ''jpeg'' \<noteq> ''png'' \<and> select_writer ''jpeg'' = (SVGWriter, ''.svg'')
   \<and> ean13_generate_barcode stub_barcode_lib ''123456789012'' ''out.png'' ''jpeg'' = Inr ''out.svg''"
proof -
  have h: "lower ''jpeg'' \<noteq> ''png''"
    by (simp add: lower_def lower_char_def ascii_uppercase_def ascii_lowercase_def)
  have v: "validate_ean13_code ''123456789012'' = Inr ''123456789012''"
    by (simp add: validate_ean13_code_def isdigit_def isdigit_char_def digits_def)
  have e: "EAN13 stub_barcode_lib ''123456789012'' SVGWriter = Inr (''123456789012'', SVGWriter)"
    by (simp add: stub_barcode_lib_def)
  have p: "ean13_output_path ''out.png'' = Inr ''out''"
    by (simp add: ean13_output_path_def with_suffix_def Path_def splitroot_def path_name_def
        path_suffix_def rfind_def path_str_def startswith_def Let_def)
  have s: "save stub_barcode_lib (''123456789012'', SVGWriter) ''out'' = Inr ''out.svg''"
    by (simp add: stub_barcode_lib_def)
  from ean13_other_format_is_svg [OF h, of stub_barcode_lib "''123456789012''" "''out.png''"]
  show ?thesis using h v e p s by blast
qed

section \<open>The error-correction level of qr_generator.py\<close>

text \<open>
  \<open>get_error_correction_level\<close> itself has a default: it maps a level whose upper-case
  form is not L, M, Q or H to \<open>ERROR_CORRECT_M\<close>. The tool never gives it such a level,
  since the parser has stopped before.
\<close>

lemma get_error_correction_level_cases:
  "get_error_correction_level level =
     (if upper level = ''L'' then ERROR_CORRECT_L
      else if upper level = ''M'' then ERROR_CORRECT_M
      else if upper level = ''Q'' then ERROR_CORRECT_Q
      else if upper level = ''H'' then ERROR_CORRECT_H
      else ERROR_CORRECT_M)"
  by (simp add: get_error_correction_level_def levels_def)

lemma upper_level_fixed:
  "level \<in> {''L'', ''M'', ''Q'', ''H''} \<Longrightarrow> upper level = level"
  by (auto simp: upper_def upper_char_def ascii_uppercase_def ascii_lowercase_def)

lemma check_value_level:
  "check_value (qr_parser ! 3) level \<longleftrightarrow> level \<in> {''L'', ''M'', ''Q'', ''H''}"
  by (simp add: check_value_def qr_parser_def arg_def)

lemma qr_main_rejects_level:
  assumes "\<not> check_value (qr_parser ! 3) (q_error_correction args)"
  shows "qr_main lib args = invalid_choice (qr_parser ! 2) (q_format args)
         \<or> qr_main lib args = invalid_choice (qr_parser ! 3) (q_error_correction args)"
  using assms by (simp add: qr_main_def)

lemma invalid_choice_outcome:
  "status (invalid_choice a v) = 2 \<and> stdout (invalid_choice a v) = []
   \<and> stderr (invalid_choice a v) \<noteq> []"
  by (simp add: invalid_choice_def)

text \<open>
  C4. For every error-correction level string, the handling of the level by the QR tool
  is a membership check on the enumeration L, M, Q, H: the parser accepts exactly these
  four, and a level outside the enumeration (up to case) is rejected as invalid, that is,
  \<open>main\<close> stops with the invalid-choice error of the parser (status 2, nothing on
  standard output) and no error-correction constant is looked up for it.
\<close>

theorem error_correction_level_rejected:
  "(check_value (qr_parser ! 3) level \<longleftrightarrow> level \<in> {''L'', ''M'', ''Q'', ''H''})
   \<and> (upper level \<notin> {''L'', ''M'', ''Q'', ''H''} \<and> q_error_correction args = level \<longrightarrow>
        \<not> check_value (qr_parser ! 3) level
        \<and> (qr_main lib args = invalid_choice (qr_parser ! 2) (q_format args)
            \<or> qr_main lib args = invalid_choice (qr_parser ! 3) level)
        \<and> status (qr_main lib args) = 2
        \<and> stdout (qr_main lib args) = []
        \<and> stderr (qr_main lib args) \<noteq> [])"
proof (intro conjI impI)
  show "check_value (qr_parser ! 3) level \<longleftrightarrow> level \<in> {''L'', ''M'', ''Q'', ''H''}"
    by (rule check_value_level)
next
  assume h: "upper level \<notin> {''L'', ''M'', ''Q'', ''H''} \<and> q_error_correction args = level"
  have n: "level \<notin> {''L'', ''M'', ''Q'', ''H''}"
    using h upper_level_fixed [of level] by auto
  then show c: "\<not> check_value (qr_parser ! 3) level"
    by (simp add: check_value_level)
  have c': "\<not> check_value (qr_parser ! 3) (q_error_correction args)"
    using c h by simp
  have d: "qr_main lib args = invalid_choice (qr_parser ! 2) (q_format args)
        \<or> qr_main lib args = invalid_choice (qr_parser ! 3) (q_error_correction args)"
    using c' by (rule qr_main_rejects_level)
  then show "qr_main lib args = invalid_choice (qr_parser ! 2) (q_format args)
            \<or> qr_main lib args = invalid_choice (qr_parser ! 3) level"
    using h by simp
  show "status (qr_main lib args) = 2"
    using d invalid_choice_outcome by auto
  show "stdout (qr_main lib args) = []"
    using d invalid_choice_outcome by auto
  show "stderr (qr_main lib args) \<noteq> []"
    using d invalid_choice_outcome by auto
qed

theorem error_correction_level_rejected_witness:
  "upper ''x'' \<notin> {''L'', ''M'', ''Q'', ''H''}
   \<and> status (qr_main stub_qrcode_lib
        \<lparr>q_data = ''Hello'', q_output = ''qr_code'', q_format = ''png'',
         q_error_correction = ''x'', q_box_size = 10, q_border = 4,
         q_fill_color = ''black'', q_back_color = ''white''\<rparr>) = 2
   \<and> stdout (qr_main stub_qrcode_lib
        \<lparr>q_data = ''Hello'', q_output = ''qr_code'', q_format = ''png'',
         q_error_correction = ''x'', q_box_size = 10, q_border = 4,
         q_fill_color = ''black'', q_back_color = ''white''\<rparr>) = []"
proof -
  let ?a = "\<lparr>q_data = ''Hello'', q_output = ''qr_code'', q_format = ''png'',
         q_error_correction = ''x'', q_box_size = 10, q_border = 4,
         q_fill_color = ''black'', q_back_color = ''white''\<rparr>"
  have u: "upper ''x'' \<notin> {''L'', ''M'', ''Q'', ''H''}"
    by (simp add: upper_def upper_char_def ascii_uppercase_def ascii_lowercase_def)
  have h: "upper ''x'' \<notin> {''L'', ''M'', ''Q'', ''H''} \<and> q_error_correction ?a = ''x''"
    using u by simp
  note r = error_correction_level_rejected [of "''x''" ?a stub_qrcode_lib,
      THEN conjunct2, THEN mp, OF h]
  have s: "status (qr_main stub_qrcode_lib ?a) = 2"
    by (rule r [THEN conjunct2, THEN conjunct2, THEN conjunct1])
  have o: "stdout (qr_main stub_qrcode_lib ?a) = []"
    by (rule r [THEN conjunct2, THEN conjunct2, THEN conjunct2, THEN conjunct1])
  show ?thesis
    using u s o by (intro conjI)
qed

section \<open>Properties of parse_options\<close>

lemma lstrip_append_nonspace:
  "\<not> isspace_char x \<Longrightarrow> lstrip (a @ x # b) = lstrip a @ x # b"
  by (simp add: lstrip_def dropWhile_append3)

lemma rstrip_append_nonspace:
  "\<not> isspace_char x \<Longrightarrow> rstrip (a @ x # b) = a @ x # rstrip b"
  by (simp add: rstrip_def dropWhile_append3)

lemma strip_append_nonspace:
  "\<not> isspace_char x \<Longrightarrow> strip (a @ x # b) = lstrip a @ x # rstrip b"
  by (simp add: strip_def lstrip_append_nonspace rstrip_append_nonspace)

lemma lstrip_rstrip: "lstrip (rstrip b) = rstrip (lstrip b)"
proof (cases "\<forall>c \<in> set b. isspace_char c")
  case True
  then have l: "lstrip b = []"
    by (simp add: lstrip_def)
  from True have r: "rstrip b = []"
    by (simp add: rstrip_def)
  have e: "lstrip [] = []" "rstrip [] = []"
    by (simp_all add: lstrip_def rstrip_def)
  show ?thesis unfolding l r e by (rule refl)
next
  case False
  then have "\<exists>c \<in> set b. \<not> isspace_char c" by simp
  then obtain u x m where b: "b = u @ x # m" and x: "\<not> isspace_char x"
    and u: "\<forall>c \<in> set u. isspace_char c"
    by (auto simp: split_list_first_prop_iff)
  have u0: "lstrip u = []" using u by (simp add: lstrip_def)
  have n: "rstrip (x # m) = x # rstrip m"
    using rstrip_append_nonspace [OF x, of "[]" m] by simp
  show ?thesis
    unfolding b by (simp add: rstrip_append_nonspace x lstrip_append_nonspace u0 n)
qed

lemma strip_lstrip: "strip (lstrip a) = strip a"
  by (simp add: strip_def lstrip_def)

lemma rstrip_idem: "rstrip (rstrip b) = rstrip b"
  by (simp add: rstrip_def)

lemma strip_rstrip: "strip (rstrip b) = strip b"
  by (simp add: strip_def lstrip_rstrip rstrip_idem)

lemma eq_not_space: "\<not> isspace_char CHR ''=''"
  by (simp add: isspace_char_def whitespace_def)

lemma split_first_strip:
  assumes "CHR ''='' \<in> set p"
  shows "split_first CHR ''='' (strip p) =
           [lstrip (takeWhile (\<lambda>c. c \<noteq> CHR ''='') p),
            rstrip (tl (dropWhile (\<lambda>c. c \<noteq> CHR ''='') p))]"
proof -
  define a where "a = takeWhile (\<lambda>c. c \<noteq> CHR ''='') p"
  define b where "b = tl (dropWhile (\<lambda>c. c \<noteq> CHR ''='') p)"
  have ne: "dropWhile (\<lambda>c. c \<noteq> CHR ''='') p \<noteq> []"
    using assms by auto
  have "hd (dropWhile (\<lambda>c. c \<noteq> CHR ''='') p) = CHR ''=''"
    using hd_dropWhile [OF ne] by simp
  then have hd: "dropWhile (\<lambda>c. c \<noteq> CHR ''='') p = CHR ''='' # b"
    using ne unfolding b_def by (cases "dropWhile (\<lambda>c. c \<noteq> CHR ''='') p") simp_all
  have p: "p = a @ CHR ''='' # b"
    unfolding a_def using hd takeWhile_dropWhile_id [of "\<lambda>c. c \<noteq> CHR ''=''" p] by simp
  have na: "CHR ''='' \<notin> set a"
    unfolding a_def by (auto dest: set_takeWhileD)
  have nl: "CHR ''='' \<notin> set (lstrip a)"
    using na unfolding lstrip_def by (auto dest: set_dropWhileD)
  have s: "strip p = lstrip a @ CHR ''='' # rstrip b"
    unfolding p by (rule strip_append_nonspace [OF eq_not_space])
  have t: "takeWhile (\<lambda>c. c \<noteq> CHR ''='') (lstrip a @ CHR ''='' # rstrip b) = lstrip a"
    using nl by (simp add: takeWhile_append)
  have d: "dropWhile (\<lambda>c. c \<noteq> CHR ''='') (lstrip a @ CHR ''='' # rstrip b) = CHR ''='' # rstrip b"
    using nl by (simp add: dropWhile_append)
  show ?thesis
    unfolding s split_first_def t d a_def [symmetric] b_def [symmetric] by simp
qed

lemma parse_pairs_step:
  "parse_pairs (pair # rest) d =
     parse_pairs rest (case option_of_piece pair of (k, v) \<Rightarrow> AList.update k v d)"
proof (cases "CHR ''='' \<in> set pair")
  case True
  show ?thesis
    using True
    by (simp add: split_first_strip option_of_piece_def strip_lstrip strip_rstrip)
next
  case False
  then show ?thesis by (simp add: option_of_piece_def)
qed

lemma parse_pairs_foldl:
  "parse_pairs ps d =
     Inr (foldl (\<lambda>d piece. case option_of_piece piece of (k, v) \<Rightarrow> AList.update k v d) d ps)"
proof (induction ps arbitrary: d)
  case Nil
  show ?case by simp
next
  case (Cons pair rest)
  show ?case
    unfolding parse_pairs_step Cons.IH by simp
qed

lemma parse_options_total: "parse_options x = Inr (parse_options_spec x)"
  by (simp add: parse_options_def parse_options_spec_def parse_pairs_foldl split: option.splits)

text \<open>
  C8. \<open>parse_options\<close> is total and never raises: for \<open>None\<close> or the empty string it
  returns the empty dictionary, and for every other string it splits on commas, maps each
  piece containing \<open>=\<close> to the pair obtained by splitting at the first \<open>=\<close> with both
  sides stripped, and each piece without \<open>=\<close> (stripped) to \<open>True\<close>.
\<close>

theorem parse_options_refines:
  "parse_options options_str = Inr (parse_options_spec options_str)
   \<and> parse_options None = Inr [] \<and> parse_options (Some []) = Inr []"
  by (simp add: parse_options_total parse_options_spec_def)


theorem parse_options_refines_witness:
  "parse_options (Some ''columns=3, rows = 10,flag, a=b=c ,columns=4'') =
     Inr [(''columns'', StrVal ''4''), (''rows'', StrVal ''10''), (''flag'', BoolVal True),
          (''a'', StrVal ''b=c'')]
   \<and> parse_options (Some [CHR ''a'', CHR 0xA0, CHR ''='', CHR 0x85, CHR ''b'']) =
       Inr [(''a'', StrVal ''b'')]"
proof -
  have e: "parse_options_spec (Some ''columns=3, rows = 10,flag, a=b=c ,columns=4'') =
     [(''columns'', StrVal ''4''), (''rows'', StrVal ''10''), (''flag'', BoolVal True),
          (''a'', StrVal ''b=c'')]"
    by code_simp
  have f: "parse_options_spec (Some [CHR ''a'', CHR 0xA0, CHR ''='', CHR 0x85, CHR ''b'']) =
     [(''a'', StrVal ''b'')]"
    by code_simp
  have a: "parse_options (Some ''columns=3, rows = 10,flag, a=b=c ,columns=4'') =
     Inr [(''columns'', StrVal ''4''), (''rows'', StrVal ''10''), (''flag'', BoolVal True),
          (''a'', StrVal ''b=c'')]"
    using parse_options_refines [of "Some ''columns=3, rows = 10,flag, a=b=c ,columns=4''"]
    unfolding e by simp
  have b: "parse_options (Some [CHR ''a'', CHR 0xA0, CHR ''='', CHR 0x85, CHR ''b'']) =
       Inr [(''a'', StrVal ''b'')]"
    using parse_options_refines [of "Some [CHR ''a'', CHR 0xA0, CHR ''='', CHR 0x85, CHR ''b'']"]
    unfolding f by simp
  show ?thesis
    using a b by (intro conjI)
qed

section \<open>What main reports\<close>

lemma ean13_main_error:
  "check_value (ean13_parser ! 2) (e_format a) \<Longrightarrow>
   ean13_generate_barcode lib (e_code a) (e_output a) (e_format a) = Inl e \<Longrightarrow>
   reports_error e (ean13_main lib a)"
  by (cases e) (simp_all add: ean13_main_def reports_error_def)

lemma ean13_main_success:
  "check_value (ean13_parser ! 2) (e_format a) \<Longrightarrow>
   ean13_generate_barcode lib (e_code a) (e_output a) (e_format a) = Inr f \<Longrightarrow>
   reports_success (''Barcode generated successfully: '' @ f) (ean13_main lib a)"
  by (simp add: ean13_main_def reports_success_def)

lemma ean13_validation_raises:
  "validate_ean13_code c = Inl e \<Longrightarrow>
   \<exists>m. ean13_generate_barcode lib c out fmt = Inl (ValueError m)"
  by (cases e) (auto simp: ean13_generate_barcode_def validate_ean13_code_def split: if_splits)

lemma barcode_validation_raises:
  "validate_barcode_type t = Inl e \<Longrightarrow>
   \<exists>m. barcode_generate_barcode lib d t out opts = Inl (ValueError m)"
  by (cases e) (auto simp: barcode_generate_barcode_def validate_barcode_type_def Let_def split: if_splits)

lemma barcode_main_reached:
  assumes "\<not> b_list_types a" "b_data a = Some d" "d \<noteq> []" "b_type a = Some t" "t \<noteq> []"
    and "parse_options (b_options a) = Inr opts"
  shows "barcode_main lib a =
     (case barcode_generate_barcode lib d t (b_output a) (Some opts) of
                Inr filename \<Rightarrow>
                  \<lparr>stdout = [''Barcode generated successfully: '' @ filename], stderr = [],
                   status = 0\<rparr>
              | Inl (ValueError m) \<Rightarrow> \<lparr>stdout = [], stderr = [''Error: '' @ m], status = 1\<rparr>
              | Inl (Exception m) \<Rightarrow> \<lparr>stdout = [], stderr = [''Error: '' @ m], status = 1\<rparr>)"
  using assms by (simp add: barcode_main_def falsy_def)

lemma barcode_main_error:
  assumes "\<not> b_list_types a" "b_data a = Some d" "d \<noteq> []" "b_type a = Some t" "t \<noteq> []"
    and "parse_options (b_options a) = Inr opts"
    and "barcode_generate_barcode lib d t (b_output a) (Some opts) = Inl e"
  shows "reports_error e (barcode_main lib a)"
  unfolding barcode_main_reached [OF assms(1-6)] using assms(7)
  by (cases e) (simp_all add: reports_error_def)

lemma barcode_main_success:
  assumes "\<not> b_list_types a" "b_data a = Some d" "d \<noteq> []" "b_type a = Some t" "t \<noteq> []"
    and "parse_options (b_options a) = Inr opts"
    and "barcode_generate_barcode lib d t (b_output a) (Some opts) = Inr f"
  shows "reports_success (''Barcode generated successfully: '' @ f) (barcode_main lib a)"
  unfolding barcode_main_reached [OF assms(1-6)] using assms(7)
  by (simp add: reports_success_def)

lemma qr_main_reached:
  assumes "check_value (qr_parser ! 2) (q_format a)"
    and "check_value (qr_parser ! 3) (q_error_correction a)"
  shows "qr_main lib a =
        (case (case validate_colors (q_fill_color a) (q_back_color a) of
                 Inl e \<Rightarrow> Inl e
               | Inr u \<Rightarrow>
                   generate_qr_code lib (q_data a) (q_output a) (q_format a)
                     (q_box_size a) (q_border a) (q_error_correction a)
                     (q_fill_color a) (q_back_color a)) of
           Inr filename \<Rightarrow>
             \<lparr>stdout = [''QR code generated successfully: '' @ filename], stderr = [],
              status = 0\<rparr>
         | Inl (ValueError m) \<Rightarrow> \<lparr>stdout = [], stderr = [''Error: '' @ m], status = 1\<rparr>
         | Inl (Exception m) \<Rightarrow> \<lparr>stdout = [], stderr = [''Error: '' @ m], status = 1\<rparr>)"
  using assms unfolding qr_main_def by simp

lemma qr_main_invalid_colors:
  assumes "check_value (qr_parser ! 2) (q_format a)"
    and "check_value (qr_parser ! 3) (q_error_correction a)"
    and "validate_colors (q_fill_color a) (q_back_color a) = Inl e"
  shows "reports_error e (qr_main lib a)"
  unfolding qr_main_reached [OF assms(1,2)] using assms(3)
  by (cases e) (simp_all add: reports_error_def)

lemma qr_main_error:
  assumes "check_value (qr_parser ! 2) (q_format a)"
    and "check_value (qr_parser ! 3) (q_error_correction a)"
    and "validate_colors (q_fill_color a) (q_back_color a) = Inr ()"
    and "generate_qr_code lib (q_data a) (q_output a) (q_format a)
                     (q_box_size a) (q_border a) (q_error_correction a)
                     (q_fill_color a) (q_back_color a) = Inl e"
  shows "reports_error e (qr_main lib a)"
  unfolding qr_main_reached [OF assms(1,2)] using assms(3,4)
  by (cases e) (simp_all add: reports_error_def)

lemma qr_main_success:
  assumes "check_value (qr_parser ! 2) (q_format a)"
    and "check_value (qr_parser ! 3) (q_error_correction a)"
    and "validate_colors (q_fill_color a) (q_back_color a) = Inr ()"
    and "generate_qr_code lib (q_data a) (q_output a) (q_format a)
                     (q_box_size a) (q_border a) (q_error_correction a)
                     (q_fill_color a) (q_back_color a) = Inr f"
  shows "reports_success (''QR code generated successfully: '' @ f) (qr_main lib a)"
  unfolding qr_main_reached [OF assms(1,2)] using assms(3,4)
  by (simp add: reports_success_def)

text \<open>
  C2. For each of the three tools, once the command line has been accepted (and, for
  barcode_generator.py, \<open>--list-types\<close> is absent and both positionals are given): when
  validation raises \<open>ValueError\<close> or generation raises any exception, \<open>main\<close> prints
  the error message on standard error and exits with status 1; when generation succeeds,
  it prints the success message on standard output and returns normally.
\<close>

theorem main_reports:
  "(check_value (ean13_parser ! 2) (e_format ea) \<longrightarrow>
      (\<forall>e. validate_ean13_code (e_code ea) = Inl e \<longrightarrow>
         (\<exists>m. ean13_generate_barcode elib (e_code ea) (e_output ea) (e_format ea)
                = Inl (ValueError m)))
      \<and> (\<forall>e. ean13_generate_barcode elib (e_code ea) (e_output ea) (e_format ea) = Inl e \<longrightarrow>
              reports_error e (ean13_main elib ea))
      \<and> (\<forall>f. ean13_generate_barcode elib (e_code ea) (e_output ea) (e_format ea) = Inr f \<longrightarrow>
              reports_success (''Barcode generated successfully: '' @ f) (ean13_main elib ea)))
   \<and> (\<not> b_list_types ba \<and> b_data ba = Some d \<and> d \<noteq> [] \<and> b_type ba = Some t \<and> t \<noteq> [] \<longrightarrow>
      (\<exists>opts. parse_options (b_options ba) = Inr opts)
      \<and> (\<forall>opts. parse_options (b_options ba) = Inr opts \<longrightarrow>
           (\<forall>e. validate_barcode_type t = Inl e \<longrightarrow>
               (\<exists>m. barcode_generate_barcode blib d t (b_output ba) (Some opts)
                      = Inl (ValueError m)))
           \<and> (\<forall>e. barcode_generate_barcode blib d t (b_output ba) (Some opts) = Inl e \<longrightarrow>
                 reports_error e (barcode_main blib ba))
           \<and> (\<forall>f. barcode_generate_barcode blib d t (b_output ba) (Some opts) = Inr f \<longrightarrow>
                 reports_success (''Barcode generated successfully: '' @ f)
                   (barcode_main blib ba))))
   \<and> (check_value (qr_parser ! 2) (q_format qa)
        \<and> check_value (qr_parser ! 3) (q_error_correction qa) \<longrightarrow>
      (\<forall>e. validate_colors (q_fill_color qa) (q_back_color qa) = Inl e \<longrightarrow>
           reports_error e (qr_main qlib qa))
      \<and> (validate_colors (q_fill_color qa) (q_back_color qa) = Inr () \<longrightarrow>
           (\<forall>e. generate_qr_code qlib (q_data qa) (q_output qa) (q_format qa) (q_box_size qa)
                  (q_border qa) (q_error_correction qa) (q_fill_color qa) (q_back_color qa)
                = Inl e \<longrightarrow> reports_error e (qr_main qlib qa))
           \<and> (\<forall>f. generate_qr_code qlib (q_data qa) (q_output qa) (q_format qa) (q_box_size qa)
                  (q_border qa) (q_error_correction qa) (q_fill_color qa) (q_back_color qa)
                = Inr f \<longrightarrow>
                reports_success (''QR code generated successfully: '' @ f) (qr_main qlib qa))))"
proof (intro conjI impI allI)
  fix e assume "validate_ean13_code (e_code ea) = Inl e"
  then show "\<exists>m. ean13_generate_barcode elib (e_code ea) (e_output ea) (e_format ea)
                = Inl (ValueError m)"
    by (rule ean13_validation_raises)
next
  fix e assume "check_value (ean13_parser ! 2) (e_format ea)"
    "ean13_generate_barcode elib (e_code ea) (e_output ea) (e_format ea) = Inl e"
  then show "reports_error e (ean13_main elib ea)"
    by (rule ean13_main_error)
next
  fix f assume "check_value (ean13_parser ! 2) (e_format ea)"
    "ean13_generate_barcode elib (e_code ea) (e_output ea) (e_format ea) = Inr f"
  then show "reports_success (''Barcode generated successfully: '' @ f) (ean13_main elib ea)"
    by (rule ean13_main_success)
next
  show "\<exists>opts. parse_options (b_options ba) = Inr opts"
    using parse_options_total [of "b_options ba"] by (rule exI)
next
  fix opts e assume "validate_barcode_type t = Inl e"
  then show "\<exists>m. barcode_generate_barcode blib d t (b_output ba) (Some opts)
                      = Inl (ValueError m)"
    by (rule barcode_validation_raises)
next
  fix opts e
  assume h: "\<not> b_list_types ba \<and> b_data ba = Some d \<and> d \<noteq> [] \<and> b_type ba = Some t \<and> t \<noteq> []"
    and p: "parse_options (b_options ba) = Inr opts"
    and g: "barcode_generate_barcode blib d t (b_output ba) (Some opts) = Inl e"
  from h have h1: "\<not> b_list_types ba" and h2: "b_data ba = Some d" and h3: "d \<noteq> []"
    and h4: "b_type ba = Some t" and h5: "t \<noteq> []"
    by simp_all
  show "reports_error e (barcode_main blib ba)"
    by (rule barcode_main_error [OF h1 h2 h3 h4 h5 p g])
next
  fix opts f
  assume h: "\<not> b_list_types ba \<and> b_data ba = Some d \<and> d \<noteq> [] \<and> b_type ba = Some t \<and> t \<noteq> []"
    and p: "parse_options (b_options ba) = Inr opts"
    and g: "barcode_generate_barcode blib d t (b_output ba) (Some opts) = Inr f"
  from h have h1: "\<not> b_list_types ba" and h2: "b_data ba = Some d" and h3: "d \<noteq> []"
    and h4: "b_type ba = Some t" and h5: "t \<noteq> []"
    by simp_all
  show "reports_success (''Barcode generated successfully: '' @ f) (barcode_main blib ba)"
    by (rule barcode_main_success [OF h1 h2 h3 h4 h5 p g])
next
  fix e assume c: "check_value (qr_parser ! 2) (q_format qa)
        \<and> check_value (qr_parser ! 3) (q_error_correction qa)"
    and v: "validate_colors (q_fill_color qa) (q_back_color qa) = Inl e"
  show "reports_error e (qr_main qlib qa)"
    by (rule qr_main_invalid_colors [OF conjunct1 [OF c] conjunct2 [OF c] v])
next
  fix e assume c: "check_value (qr_parser ! 2) (q_format qa)
        \<and> check_value (qr_parser ! 3) (q_error_correction qa)"
    and v: "validate_colors (q_fill_color qa) (q_back_color qa) = Inr ()"
    and g: "generate_qr_code qlib (q_data qa) (q_output qa) (q_format qa) (q_box_size qa)
                  (q_border qa) (q_error_correction qa) (q_fill_color qa) (q_back_color qa)
                = Inl e"
  show "reports_error e (qr_main qlib qa)"
    by (rule qr_main_error [OF conjunct1 [OF c] conjunct2 [OF c] v g])
next
  fix f assume c: "check_value (qr_parser ! 2) (q_format qa)
        \<and> check_value (qr_parser ! 3) (q_error_correction qa)"
    and v: "validate_colors (q_fill_color qa) (q_back_color qa) = Inr ()"
    and g: "generate_qr_code qlib (q_data qa) (q_output qa) (q_format qa) (q_box_size qa)
                  (q_border qa) (q_error_correction qa) (q_fill_color qa) (q_back_color qa)
                = Inr f"
  show "reports_success (''QR code generated successfully: '' @ f) (qr_main qlib qa)"
    by (rule qr_main_success [OF conjunct1 [OF c] conjunct2 [OF c] v g])
qed

theorem main_reports_witness:
  "reports_success ''Barcode generated successfully: barcode.svg''
     (ean13_main stub_barcode_lib
        \<lparr>e_code = ''123456789012'', e_output = ''barcode'', e_format = ''svg''\<rparr>)
   \<and> status (barcode_main stub_treepoem_lib
             \<lparr>b_data = Some ''ABC123'', b_type = Some ''code12'', b_output = ''barcode'',
              b_options = None, b_list_types = False\<rparr>) = 1
   \<and> reports_error (ValueError ''Invalid fill color: reddish'')
         (qr_main stub_qrcode_lib
            \<lparr>q_data = ''Hello'', q_output = ''qr_code'', q_format = ''png'',
             q_error_correction = ''M'', q_box_size = 10, q_border = 4,
             q_fill_color = ''reddish'', q_back_color = ''white''\<rparr>)"
proof -
  let ?ea = "\<lparr>e_code = ''123456789012'', e_output = ''barcode'', e_format = ''svg''\<rparr>"
  let ?ba = "\<lparr>b_data = Some ''ABC123'', b_type = Some ''code12'', b_output = ''barcode'',
              b_options = None, b_list_types = False\<rparr>"
  let ?qa = "\<lparr>q_data = ''Hello'', q_output = ''qr_code'', q_format = ''png'',
             q_error_correction = ''M'', q_box_size = 10, q_border = 4,
             q_fill_color = ''reddish'', q_back_color = ''white''\<rparr>"
  note m = main_reports [of ?ea stub_barcode_lib ?ba "''ABC123''" "''code12''"
      stub_treepoem_lib ?qa stub_qrcode_lib]
  have c1: "check_value (ean13_parser ! 2) (e_format ?ea)"
    by (simp add: check_value_def ean13_parser_def arg_def)
  have p1: "ean13_output_path ''barcode'' = Inr ''barcode''"
    by (simp add: ean13_output_path_def with_suffix_def Path_def splitroot_def path_name_def
        path_suffix_def rfind_def path_str_def startswith_def Let_def)
  have v1: "validate_ean13_code ''123456789012'' = Inr ''123456789012''"
    by (simp add: validate_ean13_code_def isdigit_def isdigit_char_def digits_def)
  have s1: "select_writer ''svg'' = (SVGWriter, ''.svg'')"
    using lower_svg by (simp add: select_writer_def)
  have g1: "ean13_generate_barcode stub_barcode_lib (e_code ?ea) (e_output ?ea) (e_format ?ea)
              = Inr ''barcode.svg''"
    by (simp add: ean13_generate_barcode_def v1 s1 p1 stub_barcode_lib_def)
  note m1 = m [THEN conjunct1, THEN mp, OF c1]
  have "reports_success (''Barcode generated successfully: '' @ ''barcode.svg'')
              (ean13_main stub_barcode_lib ?ea)"
    by (rule m1 [THEN conjunct2, THEN conjunct2, THEN spec, THEN mp, OF g1])
  then have r1: "reports_success ''Barcode generated successfully: barcode.svg''
              (ean13_main stub_barcode_lib ?ea)"
    by simp
  have h2: "\<not> b_list_types ?ba \<and> b_data ?ba = Some ''ABC123'' \<and> ''ABC123'' \<noteq> []
             \<and> b_type ?ba = Some ''code12'' \<and> ''code12'' \<noteq> []"
    by simp
  have v2: "validate_barcode_type ''code12'' =
              Inl (ValueError (''Unsupported barcode type '' @ quote ''code12''
                     @ ''. Available types: '' @ join '', '' (sort (map fst BARCODE_TYPES))))"
  proof -
    have n: "''code12'' \<notin> set (map fst BARCODE_TYPES)"
      unfolding keys_BARCODE_TYPES by simp
    show ?thesis
      unfolding validate_barcode_type_cases by (simp only: n if_False)
  qed
  note m2 = m [THEN conjunct2, THEN conjunct1, THEN mp, OF h2]
  from m2 [THEN conjunct1] obtain opts where o: "parse_options (b_options ?ba) = Inr opts"
    by (rule exE)
  note m2' = m2 [THEN conjunct2, THEN spec, THEN mp, OF o]
  from m2' [THEN conjunct1, THEN spec, THEN mp, OF v2] obtain msg where
    g2: "barcode_generate_barcode stub_treepoem_lib ''ABC123'' ''code12'' (b_output ?ba)
           (Some opts) = Inl (ValueError msg)"
    by (rule exE)
  have "reports_error (ValueError msg) (barcode_main stub_treepoem_lib ?ba)"
    by (rule m2' [THEN conjunct2, THEN conjunct1, THEN spec, THEN mp, OF g2])
  then have r2: "status (barcode_main stub_treepoem_lib ?ba) = 1"
    by (simp add: reports_error_def)
  have c3: "check_value (qr_parser ! 2) (q_format ?qa)
             \<and> check_value (qr_parser ! 3) (q_error_correction ?qa)"
    by (simp add: check_value_def qr_parser_def arg_def)
  have v3: "validate_colors (q_fill_color ?qa) (q_back_color ?qa)
              = Inl (ValueError ''Invalid fill color: reddish'')"
    by (simp add: validate_colors_def valid_colors_def startswith_def lower_def lower_char_def
        ascii_uppercase_def ascii_lowercase_def)
  have r3: "reports_error (ValueError ''Invalid fill color: reddish'')
              (qr_main stub_qrcode_lib ?qa)"
    by (rule m [THEN conjunct2, THEN conjunct2, THEN mp, OF c3, THEN conjunct1, THEN spec,
          THEN mp, OF v3])
  show ?thesis
    using r1 r2 r3 by (intro conjI)
qed

section \<open>The argument grammars\<close>

text \<open>
  C5 as stated fails: the parser of barcode_generator.py has no option named \<open>-f\<close> or
  \<open>--format\<close>.
\<close>

theorem barcode_parser_format_counterexample:
  "''-f'' \<notin> set (option_strings barcode_parser) \<and> ''--format'' \<notin> set (option_strings barcode_parser)"
  by (simp add: option_strings_def barcode_parser_def arg_def is_positional_def startswith_def)

text \<open>
  C5, amended. ean13_generator.py and qr_generator.py accept positional data, \<open>-o/--output\<close>,
  \<open>-f/--format\<close> and their own options; barcode_generator.py accepts the positionals
  \<open>data\<close> and \<open>type\<close>, \<open>-o/--output\<close>, \<open>--options\<close>, \<open>--list-types\<close> and \<open>--version\<close>,
  and no \<open>-f/--format\<close>.
\<close>

theorem argument_grammar:
  "positionals ean13_parser = [''code'']
   \<and> option_strings ean13_parser = [''-o'', ''--output'', ''-f'', ''--format'', ''--version'']
   \<and> positionals qr_parser = [''data'']
   \<and> option_strings qr_parser =
        [''-o'', ''--output'', ''-f'', ''--format'', ''-e'', ''--error-correction'',
         ''--box-size'', ''--border'', ''--fill-color'', ''--back-color'', ''--version'']
   \<and> positionals barcode_parser = [''data'', ''type'']
   \<and> option_strings barcode_parser =
        [''-o'', ''--output'', ''--options'', ''--list-types'', ''--version'']"
proof -
  have e: "positionals ean13_parser = [''code'']"
    "option_strings ean13_parser = [''-o'', ''--output'', ''-f'', ''--format'', ''--version'']"
    by (simp_all add: positionals_def option_strings_def ean13_parser_def arg_def
        is_positional_def startswith_def)
  have q: "positionals qr_parser = [''data'']"
    "option_strings qr_parser =
        [''-o'', ''--output'', ''-f'', ''--format'', ''-e'', ''--error-correction'',
         ''--box-size'', ''--border'', ''--fill-color'', ''--back-color'', ''--version'']"
    by (simp_all add: positionals_def option_strings_def qr_parser_def arg_def
        is_positional_def startswith_def)
  have b: "positionals barcode_parser = [''data'', ''type'']"
    "option_strings barcode_parser =
        [''-o'', ''--output'', ''--options'', ''--list-types'', ''--version'']"
    by (simp_all add: positionals_def option_strings_def barcode_parser_def arg_def
        is_positional_def startswith_def)
  show ?thesis
    unfolding e q b by simp
qed

section \<open>Output paths\<close>

lemma join_snoc:
  "join sep (xs @ [c]) = (if xs = [] then c else join sep xs @ sep @ c)"
  by (induction sep xs rule: join.induct) simp_all

lemma tail_snoc: "tail p \<noteq> [] \<Longrightarrow> butlast (tail p) @ [path_name p] = tail p"
  by (simp add: path_name_def)

lemma path_str_rename:
  assumes "tail p \<noteq> []"
  shows "path_str (p\<lparr>tail := butlast (tail p) @ [n @ s]\<rparr>)
           = path_str (p\<lparr>tail := butlast (tail p) @ [n]\<rparr>) @ s"
  by (simp add: path_str_def join_snoc)

lemma path_str_same:
  assumes "tail p \<noteq> []"
  shows "path_str (p\<lparr>tail := butlast (tail p) @ [path_name p]\<rparr>) = path_str p"
  using assms by (simp add: tail_snoc)

lemma name_tail: "path_name p \<noteq> [] \<Longrightarrow> tail p \<noteq> []"
  by (auto simp: path_name_def)

lemma stem_suffix:
  "take (length (path_name p) - length (path_suffix p)) (path_name p) @ path_suffix p
     = path_name p"
proof (cases "0 < rfind (path_name p) CHR ''.'' \<and>
              rfind (path_name p) CHR ''.'' < int (length (path_name p)) - 1")
  case True
  define k where "k = nat (rfind (path_name p) CHR ''.'')"
  have k: "k \<le> length (path_name p)"
    using True unfolding k_def by linarith
  have s: "path_suffix p = drop k (path_name p)"
    using True by (simp add: path_suffix_def Let_def k_def)
  show ?thesis
    unfolding s using k by (simp add: diff_diff_cancel)
next
  case False
  then have "path_suffix p = []"
    by (auto simp: path_suffix_def Let_def)
  then show ?thesis by simp
qed

lemma with_suffix_png:
  assumes "path_name p \<noteq> []" "path_suffix p = []"
  shows "with_suffix p ''.png'' = Inr (p\<lparr>tail := butlast (tail p) @ [path_name p @ ''.png'']\<rparr>)"
  using assms by (simp add: with_suffix_def startswith_def Let_def)

lemma with_suffix_empty:
  assumes "path_name p \<noteq> []"
  shows "with_suffix p [] =
           Inr (p\<lparr>tail := butlast (tail p) @
                  [take (length (path_name p) - length (path_suffix p)) (path_name p)]\<rparr>)"
  using assms by (simp add: with_suffix_def Let_def)

lemma with_suffix_empty_name:
  "path_name p = [] \<Longrightarrow> \<exists>m. with_suffix p [] = Inl (ValueError m)"
  by (simp add: with_suffix_def)

lemma barcode_output_path_str:
  assumes "path_name (Path output_path) \<noteq> []"
  shows "\<exists>p. barcode_output_path output_path = Inr p \<and>
           path_str p = (if path_suffix (Path output_path) = []
                         then path_str (Path output_path) @ ''.png''
                         else path_str (Path output_path))"
proof (cases "path_suffix (Path output_path) = []")
  case True
  have t: "tail (Path output_path) \<noteq> []"
    using assms by (rule name_tail)
  have "path_str (Path output_path\<lparr>tail := butlast (tail (Path output_path))
           @ [path_name (Path output_path) @ ''.png'']\<rparr>) = path_str (Path output_path) @ ''.png''"
    unfolding path_str_rename [OF t] path_str_same [OF t] by (rule refl)
  then show ?thesis
    using True by (simp add: barcode_output_path_def Let_def with_suffix_png [OF assms True])
next
  case False
  then show ?thesis
    by (simp add: barcode_output_path_def Let_def)
qed

lemma ean13_output_path_str:
  assumes "path_name (Path output_path) \<noteq> []"
  shows "\<exists>s. ean13_output_path output_path = Inr s \<and>
           s @ path_suffix (Path output_path) = path_str (Path output_path)"
proof -
  let ?p = "Path output_path"
  let ?stem = "take (length (path_name ?p) - length (path_suffix ?p)) (path_name ?p)"
  have t: "tail ?p \<noteq> []"
    using assms by (rule name_tail)
  have "path_str (?p\<lparr>tail := butlast (tail ?p) @ [?stem]\<rparr>) @ path_suffix ?p
          = path_str (?p\<lparr>tail := butlast (tail ?p) @ [?stem @ path_suffix ?p]\<rparr>)"
    by (rule path_str_rename [OF t, symmetric])
  also have "\<dots> = path_str ?p"
    unfolding stem_suffix by (rule path_str_same [OF t])
  finally have "path_str (?p\<lparr>tail := butlast (tail ?p) @ [?stem]\<rparr>) @ path_suffix ?p
                  = path_str ?p" .
  then show ?thesis
    by (simp add: ean13_output_path_def with_suffix_empty [OF assms])
qed

lemma endswith_iff: "endswith s e \<longleftrightarrow> (\<exists>q. s = q @ e)"
proof
  assume "endswith s e"
  then have "s = take (length s - length e) s @ e"
    unfolding endswith_def by (metis append_take_drop_id)
  then show "\<exists>q. s = q @ e" ..
next
  assume "\<exists>q. s = q @ e"
  then show "endswith s e"
    by (auto simp: endswith_def)
qed

lemma endswith_append: "endswith (s @ e) e"
  by (auto simp: endswith_iff)

lemma endswith_prepend: "endswith s e \<Longrightarrow> endswith (r @ s) e"
  by (auto simp: endswith_iff)

lemma split_on_nonempty: "split_on sep s \<noteq> []"
  by (induction s) (auto split: list.splits)

lemma split_on_no_sep: "sep \<notin> set e \<Longrightarrow> split_on sep e = [e]"
  by (induction e) auto

lemma split_on_append:
  "sep \<notin> set e \<Longrightarrow>
     split_on sep (q @ e) = butlast (split_on sep q) @ [last (split_on sep q) @ e]"
proof (induction q)
  case Nil
  then show ?case by (simp add: split_on_no_sep)
next
  case (Cons c q)
  obtain b bs where b: "split_on sep q = b # bs"
    using split_on_nonempty [of sep q] by (cases "split_on sep q") auto
  have ih: "split_on sep (q @ e) = butlast (b # bs) @ [last (b # bs) @ e]"
    using Cons b by simp
  show ?case
  proof (cases "c = sep")
    case True
    then show ?thesis using ih b by simp
  next
    case False
    then show ?thesis using ih b by (cases bs) simp_all
  qed
qed

lemma last_split_on_append:
  "sep \<notin> set e \<Longrightarrow> last (split_on sep (q @ e)) = last (split_on sep q) @ e"
  by (simp add: split_on_append)

lemma filter_keeps_last:
  assumes "xs \<noteq> []" "P (last xs)"
  shows "filter P xs = filter P (butlast xs) @ [last xs]"
proof -
  have "filter P (butlast xs @ [last xs]) = filter P (butlast xs) @ [last xs]"
    using assms(2) by simp
  then show ?thesis
    unfolding append_butlast_last_id [OF assms(1)] .
qed

lemma endswith_join:
  "xs \<noteq> [] \<Longrightarrow> endswith (last xs) e \<Longrightarrow> endswith (join sep xs) e"
proof -
  assume x: "xs \<noteq> []" and e: "endswith (last xs) e"
  have j: "join sep xs = join sep (butlast xs @ [last xs])"
    using x by simp
  show ?thesis
    unfolding j join_snoc using e by (auto simp: endswith_iff)
qed

lemma endswith_path_str_name:
  "endswith (path_name p) e \<Longrightarrow> path_name p \<noteq> [] \<Longrightarrow> endswith (path_str p) e"
proof -
  assume e: "endswith (path_name p) e" and n: "path_name p \<noteq> []"
  have t: "tail p \<noteq> []" using n by (rule name_tail)
  have "endswith (join ''/'' (tail p)) e"
    using t e by (intro endswith_join) (simp_all add: path_name_def)
  then show ?thesis
    using t by (simp add: path_str_def endswith_prepend)
qed

lemma endswith_suffix: "endswith (path_str p) (path_suffix p)"
proof (cases "path_suffix p = []")
  case True
  then show ?thesis by (simp add: endswith_def)
next
  case False
  then have n: "path_name p \<noteq> []"
    by (auto simp: path_suffix_def Let_def rfind_def)
  have "endswith (path_name p) (path_suffix p)"
    unfolding endswith_iff using stem_suffix [of p, symmetric] by (rule exI)
  then show ?thesis using n by (rule endswith_path_str_name)
qed

lemma splitroot_append:
  assumes "CHR ''/'' \<notin> set e" "e \<noteq> []"
  shows "\<exists>q'. snd (splitroot (q @ e)) = q' @ e"
proof (cases q)
  case Nil
  obtain c cs where c: "e = c # cs" using assms(2) by (cases e) auto
  have "c \<noteq> CHR ''/''" using assms(1) c by auto
  then show ?thesis
    using Nil c by (simp add: splitroot_def)
next
  case (Cons a q1)
  show ?thesis
  proof (cases q1)
    case Nil
    obtain c cs where c: "e = c # cs" using assms(2) by (cases e) auto
    have "c \<noteq> CHR ''/''" using assms(1) c by auto
    then show ?thesis
      using Cons Nil c by (simp add: splitroot_def)
  next
    case (Cons b q2)
    show ?thesis
      using \<open>q = a # q1\<close> Cons by (simp add: splitroot_def)
  qed
qed

lemma endswith_path_str:
  assumes "endswith s e" "CHR ''/'' \<notin> set e" "e \<noteq> []" "e \<noteq> ''.''"
  shows "endswith (path_str (Path s)) e"
proof -
  obtain q where q: "s = q @ e"
    using assms(1) by (auto simp: endswith_iff)
  obtain q' where r: "snd (splitroot s) = q' @ e"
    using splitroot_append [OF assms(2,3), of q] q by auto
  let ?ok = "\<lambda>x. x \<noteq> [] \<and> x \<noteq> ''.''"
  let ?xs = "split_on CHR ''/'' (snd (splitroot s))"
  have t: "tail (Path s) = filter ?ok ?xs"
    by (simp add: Path_def split: prod.splits)
  have l: "last ?xs = last (split_on CHR ''/'' q') @ e"
    unfolding r using assms(2) by (rule last_split_on_append)
  have ok: "?ok (last ?xs)"
  proof -
    have "last ?xs \<noteq> []" using l assms(3) by simp
    moreover have "last ?xs \<noteq> ''.''"
    proof
      assume d: "last ?xs = ''.''"
      then have "last (split_on CHR ''/'' q') @ e = ''.''" using l by simp
      then have "e = ''.''"
        using assms(3) by (cases "last (split_on CHR ''/'' q')") (auto simp: append_eq_Cons_conv)
      then show False using assms(4) by simp
    qed
    ultimately show ?thesis by simp
  qed
  have ne: "?xs \<noteq> []" by (rule split_on_nonempty)
  have f: "filter ?ok ?xs = filter ?ok (butlast ?xs) @ [last ?xs]"
    using ne ok by (rule filter_keeps_last)
  have n: "path_name (Path s) = last ?xs"
    unfolding path_name_def t f by simp
  have "endswith (path_name (Path s)) e"
    unfolding n l by (rule endswith_append)
  moreover have "path_name (Path s) \<noteq> []"
    unfolding n using ok by simp
  ultimately show ?thesis by (rule endswith_path_str_name)
qed

lemma qr_output_path_endswith: "endswith (qr_output_path output_path e) e"
  by (simp add: qr_output_path_def Let_def endswith_append)

lemma qr_output_path_cases:
  "qr_output_path output_path e =
     (if endswith (path_str (Path output_path)) e then path_str (Path output_path)
      else path_str (Path output_path) @ e)"
  by (simp add: qr_output_path_def Let_def)

lemma lower_png: "lower ''.png'' = ''.png''"
  by (simp add: lower_def lower_char_def ascii_uppercase_def ascii_lowercase_def)

lemma path_suffix_png:
  assumes "path_name p \<noteq> []"
  shows "path_suffix (p\<lparr>tail := butlast (tail p) @ [path_name p @ ''.png'']\<rparr>) = ''.png''"
proof -
  let ?n = "path_name p"
  have n: "path_name (p\<lparr>tail := butlast (tail p) @ [?n @ ''.png'']\<rparr>) = ?n @ ''.png''"
    by (simp add: path_name_def)
  have r: "rfind (?n @ ''.png'') CHR ''.'' = int (length ?n)"
    by (simp add: rfind_def)
  have l: "0 < length ?n" using assms by simp
  show ?thesis
    unfolding path_suffix_def n Let_def r using l by simp
qed

lemma barcode_output_path_full:
  assumes "path_name (Path output_path) \<noteq> []"
  shows "\<exists>p. barcode_output_path output_path = Inr p
           \<and> path_str p = (if path_suffix (Path output_path) = []
                           then path_str (Path output_path) @ ''.png''
                           else path_str (Path output_path))
           \<and> (lower (path_suffix p) = ''.png'' \<longleftrightarrow>
                path_suffix (Path output_path) = []
                \<or> lower (path_suffix (Path output_path)) = ''.png'')"
proof (cases "path_suffix (Path output_path) = []")
  case True
  let ?q = "Path output_path\<lparr>tail := butlast (tail (Path output_path))
           @ [path_name (Path output_path) @ ''.png'']\<rparr>"
  have t: "tail (Path output_path) \<noteq> []"
    using assms by (rule name_tail)
  have b: "barcode_output_path output_path = Inr ?q"
    using True by (simp add: barcode_output_path_def Let_def with_suffix_png [OF assms True])
  have s: "path_str ?q = path_str (Path output_path) @ ''.png''"
    unfolding path_str_rename [OF t] path_str_same [OF t] by (rule refl)
  have x: "lower (path_suffix ?q) = ''.png''"
    unfolding path_suffix_png [OF assms] by (rule lower_png)
  show ?thesis
    using True b s x by simp
next
  case False
  then show ?thesis
    by (simp add: barcode_output_path_def Let_def)
qed

lemma barcode_generate_saves:
  assumes n: "path_name (Path output_path) \<noteq> []"
    and v: "validate_barcode_type t = Inr t"
    and g: "treepoem_generate_barcode lib t d (case opts of None \<Rightarrow> [] | Some dict \<Rightarrow> dict) = Inr i"
    and x: "ImageOps_expand lib i 10 ''white'' = Inr i'"
    and c: "(if path_suffix (Path output_path) = []
                \<or> lower (path_suffix (Path output_path)) = ''.png''
             then image_convert lib i' ''RGB'' else Inr i') = Inr i''"
  shows "barcode_generate_barcode lib d t output_path opts =
           (case image_save lib i''
                   (if path_suffix (Path output_path) = []
                    then path_str (Path output_path) @ ''.png''
                    else path_str (Path output_path)) of
              Inl (ValueError m) \<Rightarrow> Inl (ValueError m)
            | Inl (Exception m) \<Rightarrow> Inl (Exception (''Failed to generate barcode: '' @ m))
            | Inr u \<Rightarrow> Inr (if path_suffix (Path output_path) = []
                           then path_str (Path output_path) @ ''.png''
                           else path_str (Path output_path)))"
proof -
  obtain p where b: "barcode_output_path output_path = Inr p"
    and s: "path_str p = (if path_suffix (Path output_path) = []
                           then path_str (Path output_path) @ ''.png''
                           else path_str (Path output_path))"
    and l: "lower (path_suffix p) = ''.png'' \<longleftrightarrow>
                path_suffix (Path output_path) = []
                \<or> lower (path_suffix (Path output_path)) = ''.png''"
    using barcode_output_path_full [OF n] by blast
  have c': "(if lower (path_suffix p) = ''.png''
             then image_convert lib i' ''RGB'' else Inr i') = Inr i''"
    unfolding l by (rule c)
  show ?thesis
    unfolding barcode_generate_barcode_def v sum.case g x b c' s
    by (simp split: sum.splits)
qed

lemma generate_qr_code_saves:
  assumes a: "QRCode lib 1 (get_error_correction_level level) box_size border = Inr qr"
    and b: "add_data lib qr d = Inr qr'"
    and c: "qr_make lib qr' True = Inr qr''"
    and m: "make_image lib qr'' (if lower format_type = ''svg'' then Some SvgPathImage else None)
              fill_color back_color = Inr img"
  shows "generate_qr_code lib d output_path format_type box_size border level
           fill_color back_color =
         (case img_save lib img
                 (qr_output_path output_path
                    (if lower format_type = ''svg'' then ''.svg'' else ''.png'')) of
            Inl e \<Rightarrow> Inl (Exception (''Failed to generate QR code: '' @ message e))
          | Inr u \<Rightarrow> Inr (qr_output_path output_path
                           (if lower format_type = ''svg'' then ''.svg'' else ''.png'')))"
proof (cases "lower format_type = ''svg''")
  case True
  have m': "make_image lib qr'' (Some SvgPathImage) fill_color back_color = Inr img"
    using m True by simp
  show ?thesis
    unfolding generate_qr_code_def a sum.case b c
    using True m' by (simp add: Let_def split: sum.splits)
next
  case False
  have m': "make_image lib qr'' None fill_color back_color = Inr img"
    using m False by simp
  show ?thesis
    unfolding generate_qr_code_def a sum.case b c
    using False m' by (simp add: Let_def split: sum.splits)
qed

lemma ean13_generate_saves:
  assumes v: "validate_ean13_code code = Inr code"
    and e: "EAN13 lib code (fst (select_writer format_type)) = Inr ean"
    and p: "ean13_output_path output_path = Inr s"
  shows "ean13_generate_barcode lib code output_path format_type =
           (case save lib ean s of
              Inl (ValueError m) \<Rightarrow> Inl (ValueError (''Invalid EAN-13 code: '' @ m))
            | Inl (Exception m) \<Rightarrow> Inl (Exception (''Failed to generate barcode: '' @ m))
            | Inr filename \<Rightarrow> Inr filename)"
proof -
  obtain w x where w: "select_writer format_type = (w, x)"
    by (cases "select_writer format_type")
  have e': "EAN13 lib code w = Inr ean"
    using e w by simp
  show ?thesis
    unfolding ean13_generate_barcode_def v sum.case w prod.case e' p by (rule refl)
qed

lemma ean13_generate_named:
  assumes v: "validate_ean13_code code = Inr code"
    and e: "EAN13 lib code (fst (select_writer format_type)) = Inr ean"
    and p: "ean13_output_path output_path = Inr s"
    and f: "save lib ean s = Inr (s @ snd (select_writer format_type))"
  shows "ean13_generate_barcode lib code output_path format_type =
           Inr (s @ snd (select_writer format_type))"
  unfolding ean13_generate_saves [OF v e p] f by simp

lemma ean13_output_path_saves:
  assumes "path_name (Path output_path) \<noteq> []"
  shows "\<exists>s. ean13_output_path output_path = Inr s
           \<and> s @ path_suffix (Path output_path) = path_str (Path output_path)
           \<and> (\<forall>ean. validate_ean13_code code = Inr code
                    \<and> EAN13 lib code (fst (select_writer format_type)) = Inr ean \<longrightarrow>
                  ean13_generate_barcode lib code output_path format_type =
                    (case save lib ean s of
                       Inl (ValueError m) \<Rightarrow> Inl (ValueError (''Invalid EAN-13 code: '' @ m))
                     | Inl (Exception m) \<Rightarrow>
                         Inl (Exception (''Failed to generate barcode: '' @ m))
                     | Inr filename \<Rightarrow> Inr filename)
                  \<and> (save lib ean s = Inr (s @ snd (select_writer format_type)) \<longrightarrow>
                       ean13_generate_barcode lib code output_path format_type =
                         Inr (s @ snd (select_writer format_type))))"
proof -
  obtain s where p: "ean13_output_path output_path = Inr s"
    and q: "s @ path_suffix (Path output_path) = path_str (Path output_path)"
    using ean13_output_path_str [OF assms] by blast
  have r: "\<forall>ean. validate_ean13_code code = Inr code
                    \<and> EAN13 lib code (fst (select_writer format_type)) = Inr ean \<longrightarrow>
                  ean13_generate_barcode lib code output_path format_type =
                    (case save lib ean s of
                       Inl (ValueError m) \<Rightarrow> Inl (ValueError (''Invalid EAN-13 code: '' @ m))
                     | Inl (Exception m) \<Rightarrow>
                         Inl (Exception (''Failed to generate barcode: '' @ m))
                     | Inr filename \<Rightarrow> Inr filename)
                  \<and> (save lib ean s = Inr (s @ snd (select_writer format_type)) \<longrightarrow>
                       ean13_generate_barcode lib code output_path format_type =
                         Inr (s @ snd (select_writer format_type)))"
  proof (intro allI impI conjI)
    fix ean
    assume h: "validate_ean13_code code = Inr code
                \<and> EAN13 lib code (fst (select_writer format_type)) = Inr ean"
    show "ean13_generate_barcode lib code output_path format_type =
                    (case save lib ean s of
                       Inl (ValueError m) \<Rightarrow> Inl (ValueError (''Invalid EAN-13 code: '' @ m))
                     | Inl (Exception m) \<Rightarrow>
                         Inl (Exception (''Failed to generate barcode: '' @ m))
                     | Inr filename \<Rightarrow> Inr filename)"
      by (rule ean13_generate_saves [OF conjunct1 [OF h] conjunct2 [OF h] p])
    assume f: "save lib ean s = Inr (s @ snd (select_writer format_type))"
    show "ean13_generate_barcode lib code output_path format_type =
                         Inr (s @ snd (select_writer format_type))"
      by (rule ean13_generate_named [OF conjunct1 [OF h] conjunct2 [OF h] p f])
  qed
  show ?thesis
  proof (intro exI conjI)
    show "ean13_output_path output_path = Inr s" by (rule p)
    show "s @ path_suffix (Path output_path) = path_str (Path output_path)" by (rule q)
    show "\<forall>ean. validate_ean13_code code = Inr code
                    \<and> EAN13 lib code (fst (select_writer format_type)) = Inr ean \<longrightarrow>
                  ean13_generate_barcode lib code output_path format_type =
                    (case save lib ean s of
                       Inl (ValueError m) \<Rightarrow> Inl (ValueError (''Invalid EAN-13 code: '' @ m))
                     | Inl (Exception m) \<Rightarrow>
                         Inl (Exception (''Failed to generate barcode: '' @ m))
                     | Inr filename \<Rightarrow> Inr filename)
                  \<and> (save lib ean s = Inr (s @ snd (select_writer format_type)) \<longrightarrow>
                       ean13_generate_barcode lib code output_path format_type =
                         Inr (s @ snd (select_writer format_type)))"
      by (rule r)
  qed
qed

text \<open>
  C6 as stated fails for an output path with an empty name: the path has no suffix, and
  both \<open>with_suffix\<close> callers raise \<open>ValueError\<close> instead of writing a file, although
  every library call succeeds.
\<close>

theorem output_extension_counterexample:
  "path_suffix (Path []) = []
   \<and> barcode_generate_barcode stub_treepoem_lib ''ABC123'' ''code128'' [] None
       = Inl (ValueError ''PosixPath('.') has an empty name'')
   \<and> ean13_generate_barcode stub_barcode_lib ''123456789012'' [] ''svg''
       = Inl (ValueError ''Invalid EAN-13 code: PosixPath('.') has an empty name'')"
proof -
  have p: "Path [] = \<lparr>root = [], tail = []\<rparr>"
    by (simp add: Path_def splitroot_def)
  have s: "path_suffix (Path []) = []"
    unfolding p by (simp add: path_suffix_def path_name_def rfind_def Let_def)
  have w: "with_suffix (Path []) suffix = Inl (ValueError ''PosixPath('.') has an empty name'')"
    if "suffix = ''.png'' \<or> suffix = []" for suffix
    using that unfolding p
    by (auto simp: with_suffix_def path_name_def path_str_def startswith_def quote_def)
  have bo: "barcode_output_path [] = Inl (ValueError ''PosixPath('.') has an empty name'')"
    using s w [of "''.png''"] by (simp add: barcode_output_path_def Let_def)
  have eo: "ean13_output_path [] = Inl (ValueError ''PosixPath('.') has an empty name'')"
    using w [of "[]"] by (simp add: ean13_output_path_def)
  have v: "validate_barcode_type ''code128'' = Inr ''code128''"
    unfolding validate_barcode_type_cases keys_BARCODE_TYPES by simp
  have b: "barcode_generate_barcode stub_treepoem_lib ''ABC123'' ''code128'' [] None
       = Inl (ValueError ''PosixPath('.') has an empty name'')"
    unfolding barcode_generate_barcode_def v bo by (simp add: stub_treepoem_lib_def)
  have v1: "validate_ean13_code ''123456789012'' = Inr ''123456789012''"
    by (simp add: validate_ean13_code_def isdigit_def isdigit_char_def digits_def)
  have s1: "select_writer ''svg'' = (SVGWriter, ''.svg'')"
    using lower_svg by (simp add: select_writer_def)
  have e: "ean13_generate_barcode stub_barcode_lib ''123456789012'' [] ''svg''
       = Inl (ValueError ''Invalid EAN-13 code: PosixPath('.') has an empty name'')"
    unfolding ean13_generate_barcode_def v1 s1 eo by (simp add: stub_barcode_lib_def)
  show ?thesis
    using s b e by (intro conjI)
qed

text \<open>
  C6, amended. \<^emph>\<open>barcode_generator.py\<close>, for every output path whose name (last
  component) is not empty: when the library calls before it succeed, \<open>generate_barcode\<close>
  saves the image under, and returns, the normalised path with \<open>.png\<close> appended when
  the path has no suffix, and the normalised path itself, which ends with the given
  suffix, otherwise. \<^emph>\<open>ean13_generator.py\<close>, for every output path whose name is not
  empty: \<open>generate_barcode\<close> hands to \<open>save\<close> the barcode object built with the selected
  writer and the normalised path without its suffix; when \<open>save\<close> names the file by the
  extension of that writer, the file name returned is the stripped path followed by the
  extension of the writer. \<^emph>\<open>qr_generator.py\<close>, for every output path: when the library
  calls before it succeed, \<open>generate_qr_code\<close> saves the image under, and returns, a path
  that ends with \<open>.svg\<close> when \<open>format_type\<close> is \<open>svg\<close> up to case and with \<open>.png\<close>
  otherwise; the extension is appended exactly when the normalised path does not end with
  it, and never when the given path ends with it.
\<close>

theorem output_extension:
  "(path_name (Path output_path) \<noteq> [] \<longrightarrow>
      (\<exists>p. barcode_output_path output_path = Inr p \<and>
           path_str p = (if path_suffix (Path output_path) = []
                         then path_str (Path output_path) @ ''.png''
                         else path_str (Path output_path)))
      \<and> (\<forall>i i' i''.
            validate_barcode_type barcode_type = Inr barcode_type
            \<and> treepoem_generate_barcode blib barcode_type data
                 (case opts of None \<Rightarrow> [] | Some dict \<Rightarrow> dict) = Inr i
            \<and> ImageOps_expand blib i 10 ''white'' = Inr i'
            \<and> (if path_suffix (Path output_path) = []
                    \<or> lower (path_suffix (Path output_path)) = ''.png''
                 then image_convert blib i' ''RGB'' else Inr i') = Inr i'' \<longrightarrow>
            barcode_generate_barcode blib data barcode_type output_path opts =
              (case image_save blib i''
                      (if path_suffix (Path output_path) = []
                       then path_str (Path output_path) @ ''.png''
                       else path_str (Path output_path)) of
                 Inl (ValueError m) \<Rightarrow> Inl (ValueError m)
               | Inl (Exception m) \<Rightarrow> Inl (Exception (''Failed to generate barcode: '' @ m))
               | Inr u \<Rightarrow> Inr (if path_suffix (Path output_path) = []
                              then path_str (Path output_path) @ ''.png''
                              else path_str (Path output_path))))
      \<and> (\<exists>s. ean13_output_path output_path = Inr s
             \<and> s @ path_suffix (Path output_path) = path_str (Path output_path)
             \<and> (\<forall>ean. validate_ean13_code code = Inr code
                      \<and> EAN13 elib code (fst (select_writer format_type')) = Inr ean \<longrightarrow>
                    ean13_generate_barcode elib code output_path format_type' =
                      (case save elib ean s of
                         Inl (ValueError m) \<Rightarrow> Inl (ValueError (''Invalid EAN-13 code: '' @ m))
                       | Inl (Exception m) \<Rightarrow>
                           Inl (Exception (''Failed to generate barcode: '' @ m))
                       | Inr filename \<Rightarrow> Inr filename)
                    \<and> (save elib ean s = Inr (s @ snd (select_writer format_type')) \<longrightarrow>
                         ean13_generate_barcode elib code output_path format_type' =
                           Inr (s @ snd (select_writer format_type'))))))
   \<and> endswith (path_str (Path output_path)) (path_suffix (Path output_path))
   \<and> (\<forall>qr qr' qr'' img.
         QRCode qlib 1 (get_error_correction_level level) box_size border = Inr qr
         \<and> add_data qlib qr qdata = Inr qr'
         \<and> qr_make qlib qr' True = Inr qr''
         \<and> make_image qlib qr'' (if lower format_type = ''svg'' then Some SvgPathImage else None)
              fill_color back_color = Inr img \<longrightarrow>
         generate_qr_code qlib qdata output_path format_type box_size border level
             fill_color back_color =
           (case img_save qlib img
                   (qr_output_path output_path
                      (if lower format_type = ''svg'' then ''.svg'' else ''.png'')) of
              Inl e \<Rightarrow> Inl (Exception (''Failed to generate QR code: '' @ message e))
            | Inr u \<Rightarrow> Inr (qr_output_path output_path
                             (if lower format_type = ''svg'' then ''.svg'' else ''.png''))))
   \<and> (\<forall>e \<in> {''.svg'', ''.png''}.
         endswith (qr_output_path output_path e) e
         \<and> qr_output_path output_path e =
             (if endswith (path_str (Path output_path)) e then path_str (Path output_path)
              else path_str (Path output_path) @ e)
         \<and> (endswith output_path e \<longrightarrow>
               qr_output_path output_path e = path_str (Path output_path)))"
proof (intro conjI)
  show "path_name (Path output_path) \<noteq> [] \<longrightarrow>
      (\<exists>p. barcode_output_path output_path = Inr p \<and>
           path_str p = (if path_suffix (Path output_path) = []
                         then path_str (Path output_path) @ ''.png''
                         else path_str (Path output_path)))
      \<and> (\<forall>i i' i''.
            validate_barcode_type barcode_type = Inr barcode_type
            \<and> treepoem_generate_barcode blib barcode_type data
                 (case opts of None \<Rightarrow> [] | Some dict \<Rightarrow> dict) = Inr i
            \<and> ImageOps_expand blib i 10 ''white'' = Inr i'
            \<and> (if path_suffix (Path output_path) = []
                    \<or> lower (path_suffix (Path output_path)) = ''.png''
                 then image_convert blib i' ''RGB'' else Inr i') = Inr i'' \<longrightarrow>
            barcode_generate_barcode blib data barcode_type output_path opts =
              (case image_save blib i''
                      (if path_suffix (Path output_path) = []
                       then path_str (Path output_path) @ ''.png''
                       else path_str (Path output_path)) of
                 Inl (ValueError m) \<Rightarrow> Inl (ValueError m)
               | Inl (Exception m) \<Rightarrow> Inl (Exception (''Failed to generate barcode: '' @ m))
               | Inr u \<Rightarrow> Inr (if path_suffix (Path output_path) = []
                              then path_str (Path output_path) @ ''.png''
                              else path_str (Path output_path))))
      \<and> (\<exists>s. ean13_output_path output_path = Inr s
             \<and> s @ path_suffix (Path output_path) = path_str (Path output_path)
             \<and> (\<forall>ean. validate_ean13_code code = Inr code
                      \<and> EAN13 elib code (fst (select_writer format_type')) = Inr ean \<longrightarrow>
                    ean13_generate_barcode elib code output_path format_type' =
                      (case save elib ean s of
                         Inl (ValueError m) \<Rightarrow> Inl (ValueError (''Invalid EAN-13 code: '' @ m))
                       | Inl (Exception m) \<Rightarrow>
                           Inl (Exception (''Failed to generate barcode: '' @ m))
                       | Inr filename \<Rightarrow> Inr filename)
                    \<and> (save elib ean s = Inr (s @ snd (select_writer format_type')) \<longrightarrow>
                         ean13_generate_barcode elib code output_path format_type' =
                           Inr (s @ snd (select_writer format_type')))))"
  proof (intro impI conjI allI)
    assume n: "path_name (Path output_path) \<noteq> []"
    show "\<exists>p. barcode_output_path output_path = Inr p \<and>
           path_str p = (if path_suffix (Path output_path) = []
                         then path_str (Path output_path) @ ''.png''
                         else path_str (Path output_path))"
      using n by (rule barcode_output_path_str)
    show "\<exists>s. ean13_output_path output_path = Inr s
             \<and> s @ path_suffix (Path output_path) = path_str (Path output_path)
             \<and> (\<forall>ean. validate_ean13_code code = Inr code
                      \<and> EAN13 elib code (fst (select_writer format_type')) = Inr ean \<longrightarrow>
                    ean13_generate_barcode elib code output_path format_type' =
                      (case save elib ean s of
                         Inl (ValueError m) \<Rightarrow> Inl (ValueError (''Invalid EAN-13 code: '' @ m))
                       | Inl (Exception m) \<Rightarrow>
                           Inl (Exception (''Failed to generate barcode: '' @ m))
                       | Inr filename \<Rightarrow> Inr filename)
                    \<and> (save elib ean s = Inr (s @ snd (select_writer format_type')) \<longrightarrow>
                         ean13_generate_barcode elib code output_path format_type' =
                           Inr (s @ snd (select_writer format_type'))))"
      using n by (rule ean13_output_path_saves)
    fix i i' i''
    assume h: "validate_barcode_type barcode_type = Inr barcode_type
            \<and> treepoem_generate_barcode blib barcode_type data
                 (case opts of None \<Rightarrow> [] | Some dict \<Rightarrow> dict) = Inr i
            \<and> ImageOps_expand blib i 10 ''white'' = Inr i'
            \<and> (if path_suffix (Path output_path) = []
                    \<or> lower (path_suffix (Path output_path)) = ''.png''
                 then image_convert blib i' ''RGB'' else Inr i') = Inr i''"
    show "barcode_generate_barcode blib data barcode_type output_path opts =
              (case image_save blib i''
                      (if path_suffix (Path output_path) = []
                       then path_str (Path output_path) @ ''.png''
                       else path_str (Path output_path)) of
                 Inl (ValueError m) \<Rightarrow> Inl (ValueError m)
               | Inl (Exception m) \<Rightarrow> Inl (Exception (''Failed to generate barcode: '' @ m))
               | Inr u \<Rightarrow> Inr (if path_suffix (Path output_path) = []
                              then path_str (Path output_path) @ ''.png''
                              else path_str (Path output_path)))"
      by (rule barcode_generate_saves [OF n h [THEN conjunct1]
            h [THEN conjunct2, THEN conjunct1]
            h [THEN conjunct2, THEN conjunct2, THEN conjunct1]
            h [THEN conjunct2, THEN conjunct2, THEN conjunct2]])
  qed
next
  show "endswith (path_str (Path output_path)) (path_suffix (Path output_path))"
    by (rule endswith_suffix)
next
  show "\<forall>qr qr' qr'' img.
         QRCode qlib 1 (get_error_correction_level level) box_size border = Inr qr
         \<and> add_data qlib qr qdata = Inr qr'
         \<and> qr_make qlib qr' True = Inr qr''
         \<and> make_image qlib qr'' (if lower format_type = ''svg'' then Some SvgPathImage else None)
              fill_color back_color = Inr img \<longrightarrow>
         generate_qr_code qlib qdata output_path format_type box_size border level
             fill_color back_color =
           (case img_save qlib img
                   (qr_output_path output_path
                      (if lower format_type = ''svg'' then ''.svg'' else ''.png'')) of
              Inl e \<Rightarrow> Inl (Exception (''Failed to generate QR code: '' @ message e))
            | Inr u \<Rightarrow> Inr (qr_output_path output_path
                             (if lower format_type = ''svg'' then ''.svg'' else ''.png'')))"
  proof (intro allI impI)
    fix qr qr' qr'' img
    assume h: "QRCode qlib 1 (get_error_correction_level level) box_size border = Inr qr
         \<and> add_data qlib qr qdata = Inr qr'
         \<and> qr_make qlib qr' True = Inr qr''
         \<and> make_image qlib qr'' (if lower format_type = ''svg'' then Some SvgPathImage else None)
              fill_color back_color = Inr img"
    show "generate_qr_code qlib qdata output_path format_type box_size border level
             fill_color back_color =
           (case img_save qlib img
                   (qr_output_path output_path
                      (if lower format_type = ''svg'' then ''.svg'' else ''.png'')) of
              Inl e \<Rightarrow> Inl (Exception (''Failed to generate QR code: '' @ message e))
            | Inr u \<Rightarrow> Inr (qr_output_path output_path
                             (if lower format_type = ''svg'' then ''.svg'' else ''.png'')))"
      by (rule generate_qr_code_saves [OF h [THEN conjunct1]
            h [THEN conjunct2, THEN conjunct1]
            h [THEN conjunct2, THEN conjunct2, THEN conjunct1]
            h [THEN conjunct2, THEN conjunct2, THEN conjunct2]])
  qed
next
  show "\<forall>e \<in> {''.svg'', ''.png''}.
         endswith (qr_output_path output_path e) e
         \<and> qr_output_path output_path e =
             (if endswith (path_str (Path output_path)) e then path_str (Path output_path)
              else path_str (Path output_path) @ e)
         \<and> (endswith output_path e \<longrightarrow>
               qr_output_path output_path e = path_str (Path output_path))"
  proof (intro ballI conjI impI)
    fix e :: string assume e: "e \<in> {''.svg'', ''.png''}"
    show "endswith (qr_output_path output_path e) e"
      by (rule qr_output_path_endswith)
    show "qr_output_path output_path e =
             (if endswith (path_str (Path output_path)) e then path_str (Path output_path)
              else path_str (Path output_path) @ e)"
      by (rule qr_output_path_cases)
    assume g: "endswith output_path e"
    have "CHR ''/'' \<notin> set e" "e \<noteq> []" "e \<noteq> ''.''"
      using e by auto
    then have "endswith (path_str (Path output_path)) e"
      by (rule endswith_path_str [OF g])
    then show "qr_output_path output_path e = path_str (Path output_path)"
      by (simp add: qr_output_path_cases)
  qed
qed

theorem output_extension_witness:
  "path_name (Path ''labels/item'') \<noteq> []
   \<and> barcode_generate_barcode stub_treepoem_lib ''ABC123'' ''code128'' ''labels/item'' None
       = Inr ''labels/item.png''
   \<and> generate_qr_code stub_qrcode_lib ''Hello'' ''labels/item'' ''SVG'' 10 4 ''M''
         ''black'' ''white'' = Inr ''labels/item.svg''
   \<and> path_name (Path ''out.png'') \<noteq> []
   \<and> ean13_generate_barcode stub_barcode_lib ''123456789012'' ''out.png'' ''svg''
       = Inr ''out.svg''"
proof -
  have p: "Path ''labels/item'' = \<lparr>root = [], tail = [''labels'', ''item'']\<rparr>"
    by (simp add: Path_def splitroot_def)
  have n: "path_name (Path ''labels/item'') \<noteq> []"
    unfolding p by (simp add: path_name_def)
  have s: "path_suffix (Path ''labels/item'') = []"
    unfolding p by (simp add: path_suffix_def path_name_def rfind_def Let_def)
  have t: "path_str (Path ''labels/item'') = ''labels/item''"
    unfolding p by (simp add: path_str_def)
  note a = output_extension [of "''labels/item''" "''code128''" stub_treepoem_lib "''ABC123''"
      None "''123456789012''" stub_barcode_lib "''svg''" stub_qrcode_lib "''M''" 10 4
      "''Hello''" "''SVG''" "''black''" "''white''"]
  have v: "validate_barcode_type ''code128'' = Inr ''code128''"
    unfolding validate_barcode_type_cases keys_BARCODE_TYPES by simp
  have h: "validate_barcode_type ''code128'' = Inr ''code128''
            \<and> treepoem_generate_barcode stub_treepoem_lib ''code128'' ''ABC123''
                 (case None of None \<Rightarrow> [] | Some dict \<Rightarrow> dict) = Inr ''ABC123''
            \<and> ImageOps_expand stub_treepoem_lib ''ABC123'' 10 ''white'' = Inr ''ABC123''
            \<and> (if path_suffix (Path ''labels/item'') = []
                    \<or> lower (path_suffix (Path ''labels/item'')) = ''.png''
                 then image_convert stub_treepoem_lib ''ABC123'' ''RGB'' else Inr ''ABC123'')
                = Inr ''ABC123''"
    using v by (simp add: stub_treepoem_lib_def)
  have "barcode_generate_barcode stub_treepoem_lib ''ABC123'' ''code128'' ''labels/item'' None =
              (case image_save stub_treepoem_lib ''ABC123''
                      (if path_suffix (Path ''labels/item'') = []
                       then path_str (Path ''labels/item'') @ ''.png''
                       else path_str (Path ''labels/item'')) of
                 Inl (ValueError m) \<Rightarrow> Inl (ValueError m)
               | Inl (Exception m) \<Rightarrow> Inl (Exception (''Failed to generate barcode: '' @ m))
               | Inr u \<Rightarrow> Inr (if path_suffix (Path ''labels/item'') = []
                              then path_str (Path ''labels/item'') @ ''.png''
                              else path_str (Path ''labels/item'')))"
    by (rule a [THEN conjunct1, THEN mp, OF n, THEN conjunct2, THEN conjunct1,
                THEN spec, THEN spec, THEN spec, THEN mp, OF h])
  then have b: "barcode_generate_barcode stub_treepoem_lib ''ABC123'' ''code128''
                  ''labels/item'' None = Inr ''labels/item.png''"
    unfolding s t by (simp add: stub_treepoem_lib_def)
  have l: "lower ''SVG'' = ''svg''"
    by (simp add: lower_def lower_char_def ascii_uppercase_def ascii_lowercase_def)
  have k: "QRCode stub_qrcode_lib 1 (get_error_correction_level ''M'') 10 4 = Inr []
         \<and> add_data stub_qrcode_lib [] ''Hello'' = Inr ''Hello''
         \<and> qr_make stub_qrcode_lib ''Hello'' True = Inr ''Hello''
         \<and> make_image stub_qrcode_lib ''Hello''
              (if lower ''SVG'' = ''svg'' then Some SvgPathImage else None)
              ''black'' ''white'' = Inr ''Hello''"
    by (simp add: stub_qrcode_lib_def)
  have o: "qr_output_path ''labels/item'' ''.svg'' = ''labels/item.svg''"
    unfolding qr_output_path_def t by (simp add: endswith_def Let_def)
  have "generate_qr_code stub_qrcode_lib ''Hello'' ''labels/item'' ''SVG'' 10 4 ''M''
             ''black'' ''white'' =
           (case img_save stub_qrcode_lib ''Hello''
                   (qr_output_path ''labels/item''
                      (if lower ''SVG'' = ''svg'' then ''.svg'' else ''.png'')) of
              Inl e \<Rightarrow> Inl (Exception (''Failed to generate QR code: '' @ message e))
            | Inr u \<Rightarrow> Inr (qr_output_path ''labels/item''
                             (if lower ''SVG'' = ''svg'' then ''.svg'' else ''.png'')))"
    by (rule a [THEN conjunct2, THEN conjunct2, THEN conjunct1,
                THEN spec, THEN spec, THEN spec, THEN spec, THEN mp, OF k])
  then have q: "generate_qr_code stub_qrcode_lib ''Hello'' ''labels/item'' ''SVG'' 10 4 ''M''
             ''black'' ''white'' = Inr ''labels/item.svg''"
    unfolding l by (simp add: o stub_qrcode_lib_def)
  have p2: "Path ''out.png'' = \<lparr>root = [], tail = [''out.png'']\<rparr>"
    by (simp add: Path_def splitroot_def)
  have n2: "path_name (Path ''out.png'') \<noteq> []"
    unfolding p2 by (simp add: path_name_def)
  have e2: "ean13_output_path ''out.png'' = Inr ''out''"
    by (simp add: ean13_output_path_def with_suffix_def Path_def splitroot_def path_name_def
        path_suffix_def rfind_def path_str_def startswith_def Let_def)
  have v1: "validate_ean13_code ''123456789012'' = Inr ''123456789012''"
    by (simp add: validate_ean13_code_def isdigit_def isdigit_char_def digits_def)
  have s1: "select_writer ''svg'' = (SVGWriter, ''.svg'')"
    using lower_svg by (simp add: select_writer_def)
  have h2: "validate_ean13_code ''123456789012'' = Inr ''123456789012''
             \<and> EAN13 stub_barcode_lib ''123456789012'' (fst (select_writer ''svg''))
                 = Inr (''123456789012'', SVGWriter)"
    using v1 s1 by (simp add: stub_barcode_lib_def)
  have f2: "save stub_barcode_lib (''123456789012'', SVGWriter) ''out''
              = Inr (''out'' @ snd (select_writer ''svg''))"
    unfolding s1 by (simp add: stub_barcode_lib_def)
  note a2 = output_extension [of "''out.png''" "''code128''" stub_treepoem_lib "''ABC123''"
      None "''123456789012''" stub_barcode_lib "''svg''" stub_qrcode_lib "''M''" 10 4
      "''Hello''" "''SVG''" "''black''" "''white''"]
  obtain x where x: "ean13_output_path ''out.png'' = Inr x
             \<and> x @ path_suffix (Path ''out.png'') = path_str (Path ''out.png'')
             \<and> (\<forall>ean. validate_ean13_code ''123456789012'' = Inr ''123456789012''
                      \<and> EAN13 stub_barcode_lib ''123456789012'' (fst (select_writer ''svg''))
                          = Inr ean \<longrightarrow>
                    ean13_generate_barcode stub_barcode_lib ''123456789012'' ''out.png'' ''svg'' =
                      (case save stub_barcode_lib ean x of
                         Inl (ValueError m) \<Rightarrow> Inl (ValueError (''Invalid EAN-13 code: '' @ m))
                       | Inl (Exception m) \<Rightarrow>
                           Inl (Exception (''Failed to generate barcode: '' @ m))
                       | Inr filename \<Rightarrow> Inr filename)
                    \<and> (save stub_barcode_lib ean x = Inr (x @ snd (select_writer ''svg'')) \<longrightarrow>
                         ean13_generate_barcode stub_barcode_lib ''123456789012'' ''out.png''
                           ''svg'' = Inr (x @ snd (select_writer ''svg''))))"
    using a2 [THEN conjunct1, THEN mp, OF n2, THEN conjunct2, THEN conjunct2] by (rule exE)
  have x0: "x = ''out''"
    using x [THEN conjunct1] e2 by simp
  note y = x [THEN conjunct2, THEN conjunct2, THEN spec, THEN mp, OF h2, THEN conjunct2]
  have "ean13_generate_barcode stub_barcode_lib ''123456789012'' ''out.png'' ''svg''
          = Inr (''out'' @ snd (select_writer ''svg''))"
    using y f2 unfolding x0 by (rule mp)
  then have c: "ean13_generate_barcode stub_barcode_lib ''123456789012'' ''out.png'' ''svg''
          = Inr ''out.svg''"
    unfolding s1 by simp
  show ?thesis
    using n b q n2 c by (intro conjI)
qed

end
